theory Spec2Isabelle
  imports Complex_Main
begin

section \<open>statista: distribution fitting, shallow embedding of \<open>statista/distributions.py\<close>\<close>

text \<open>
  Conventions of the embedding.
  \<^item> Python floats and numpy float arrays are real numbers and lists of real numbers. The
    float values \<open>inf\<close> and \<open>nan\<close> have no counterpart; statements about numeric results
    are restricted to arguments on which the float computation stays finite.
  \<^item> A raised exception is the left summand of a sum type.
  \<^item> The functions of scipy, of \<open>statista.parameters\<close> and of \<open>statista.tools\<close> are not part
    of \<open>distributions.py\<close>; they are fields of a record that every operation takes as its
    first argument.
  \<^item> The plotting branch (\<open>plot_figure=True\<close>) is outside the embedding: every operation
    is the \<open>plot_figure=False\<close> path, which is the default.
\<close>

subsection \<open>Exceptions\<close>

text \<open>
  The exceptions that \<open>distributions.py\<close> raises itself are \<open>ValueError\<close> and
  \<open>TypeError\<close>, each with its message. \<open>AttributeError\<close> (with the attribute's name)
  and \<open>IndexError\<close> come from the interpreter, \<open>LibraryError\<close> stands for any other
  exception of a library function. All of them are subclasses of \<open>Exception\<close>.
\<close>

datatype error =
    ValueError string
  | TypeError string
  | AttributeError string
  | IndexError
  | LibraryError string

definition sbind :: "error + 'a \<Rightarrow> ('a \<Rightarrow> error + 'b) \<Rightarrow> error + 'b" where
  \<comment> \<open>Sequencing: an exception of the first computation ends the whole.\<close>
  "sbind m f = (case m of Inl e \<Rightarrow> Inl e | Inr v \<Rightarrow> f v)"

definition py_index :: "'a list \<Rightarrow> nat \<Rightarrow> error + 'a" where
  \<comment> \<open>\<open>xs[j]\<close> for \<open>j \<ge> 0\<close>: out of range raises.\<close>
  "py_index xs j = (if j < length xs then Inr (xs ! j) else Inl IndexError)"

fun collect :: "(nat \<Rightarrow> error + 'a) \<Rightarrow> nat list \<Rightarrow> error + 'a list" where
  \<comment> \<open>The list comprehension \<open>[f(j) for j in js]\<close>: the first exception ends it.\<close>
  "collect f [] = Inr []"
| "collect f (j # js) =
     (case f j of
        Inl e \<Rightarrow> Inl e
      | Inr v \<Rightarrow> (case collect f js of Inl e \<Rightarrow> Inl e | Inr vs \<Rightarrow> Inr (v # vs)))"

definition py_any :: "real list \<Rightarrow> bool" where
  \<comment> \<open>The builtin \<open>any\<close> on floats: some element is truthy, that is, not zero.\<close>
  "py_any xs = list_ex (\<lambda>x. x \<noteq> 0) xs"

definition lower_char :: "char \<Rightarrow> char" where
  "lower_char c =
     (case map_of (zip ''ABCDEFGHIJKLMNOPQRSTUVWXYZ'' ''abcdefghijklmnopqrstuvwxyz'') c of
        Some d \<Rightarrow> d
      | None \<Rightarrow> c)"

definition lower :: "string \<Rightarrow> string" where
  \<comment> \<open>\<open>str.lower\<close> on ASCII text.\<close>
  "lower s = map lower_char s"

subsection \<open>Arrays in a store\<close>

text \<open>
  For the question whether an operation changes the array its caller passed, arrays live
  in a store and are passed by reference. A reference is an index into the store;
  allocation appends.
\<close>

type_synonym ref = nat
type_synonym store = "real list list"

definition np_array :: "store \<Rightarrow> ref \<Rightarrow> ref \<times> store" where
  \<comment> \<open>\<open>np.array(x)\<close>: a new array holding a copy of the elements of \<open>x\<close>.\<close>
  "np_array s r = (length s, s @ [s ! r])"

definition ndarray_sort :: "store \<Rightarrow> ref \<Rightarrow> store" where
  \<comment> \<open>\<open>a.sort()\<close>: sorts the array \<open>a\<close> refers to, in place.\<close>
  "ndarray_sort s a = s[a := sort (s ! a)]"

subsection \<open>PlottingPosition\<close>

definition return_period :: "real list \<Rightarrow> real list" where
  \<comment> \<open>\<open>T = 1 / (1 - F)\<close>, elementwise. At \<open>F = 1\<close> numpy yields \<open>inf\<close>.\<close>
  "return_period F = map (\<lambda>f. 1 / (1 - f)) F"

definition weibul_st :: "store \<Rightarrow> ref \<Rightarrow> bool \<Rightarrow> real list \<times> store" where
  \<comment> \<open>\<open>PlottingPosition.weibul(data, return_period)\<close>, with the store explicit. The local
      name \<open>data\<close> is rebound to the new array; the caller's array stays at \<open>r\<close>.\<close>
  "weibul_st s r rp =
     (let (a, s1) = np_array s r;
          s2 = ndarray_sort s1 a;
          n = length (s2 ! a);
          cdf = map (\<lambda>i. real i / real (n + 1)) [1..<n + 1]
      in (if \<not> rp then cdf else return_period cdf, s2))"

definition weibul :: "real list \<Rightarrow> bool \<Rightarrow> real list" where
  \<comment> \<open>The value \<open>weibul\<close> returns for an array with the given elements.\<close>
  "weibul xs rp = fst (weibul_st [xs] 0 rp)"

subsection \<open>The numerical library\<close>

text \<open>
  What \<open>distributions.py\<close> imports: the density, distribution and quantile functions
  and the fit routines of \<open>scipy.stats\<close>, the two tests, \<open>scipy.optimize.fmin\<close>, the
  L-moments of \<open>statista.parameters\<close> and \<open>standardize\<close> of \<open>statista.tools\<close>. The
  density, distribution and quantile functions return an array for every numeric
  argument (\<open>nan\<close> where the arguments are invalid); the others may raise.
\<close>

type_synonym objfun = "real list \<Rightarrow> real list \<Rightarrow> error + real"

record numlib =
  gumbel_r_pdf :: "real list \<Rightarrow> real \<Rightarrow> real \<Rightarrow> real list"
  gumbel_r_cdf :: "real list \<Rightarrow> real \<Rightarrow> real \<Rightarrow> real list"
  gumbel_r_fit :: "real list \<Rightarrow> string \<Rightarrow> error + real list"
  genextreme_pdf :: "real list \<Rightarrow> real \<Rightarrow> real \<Rightarrow> real \<Rightarrow> real list"
  genextreme_cdf :: "real list \<Rightarrow> real \<Rightarrow> real \<Rightarrow> real \<Rightarrow> real list"
  genextreme_ppf :: "real list \<Rightarrow> real \<Rightarrow> real \<Rightarrow> real \<Rightarrow> real list"
  genextreme_fit :: "real list \<Rightarrow> string \<Rightarrow> error + real list"
  expon_pdf :: "real list \<Rightarrow> real \<Rightarrow> real \<Rightarrow> real list"
  expon_cdf :: "real list \<Rightarrow> real \<Rightarrow> real \<Rightarrow> real list"
  expon_ppf :: "real list \<Rightarrow> real \<Rightarrow> real \<Rightarrow> real list"
  expon_fit :: "real list \<Rightarrow> string \<Rightarrow> error + real list"
  norm_pdf :: "real list \<Rightarrow> real \<Rightarrow> real \<Rightarrow> real list"
  norm_cdf :: "real list \<Rightarrow> real \<Rightarrow> real \<Rightarrow> real list"
  norm_ppf :: "real list \<Rightarrow> real \<Rightarrow> real \<Rightarrow> real list"
  norm_ppf1 :: "real \<Rightarrow> real"
  norm_fit :: "real list \<Rightarrow> string \<Rightarrow> error + real list"
  ks_2samp :: "real list \<Rightarrow> real list \<Rightarrow> error + real \<times> real"
  scipy_chisquare :: "real list \<Rightarrow> real list \<Rightarrow> error + real \<times> real"
  standardize :: "real list \<Rightarrow> error + real list"
  fmin :: "objfun \<Rightarrow> real list \<Rightarrow> real list \<Rightarrow> nat \<Rightarrow> nat \<Rightarrow> error + real list"
  Lmom :: "real list \<Rightarrow> error + real list"
  Lmoments_gumbel :: "real list \<Rightarrow> error + real list"
  Lmoments_gev :: "real list \<Rightarrow> error + real list"
  Lmoments_exponential :: "real list \<Rightarrow> error + real list"
  Lmoments_normal :: "real list \<Rightarrow> error + real list"

text \<open>
  The arguments, in the order of the fields' types: the functions of a two-parameter
  family take the array, \<open>loc\<close> and \<open>scale\<close>; those of \<open>genextreme\<close> the array, the shape
  \<open>c\<close>, \<open>loc\<close> and \<open>scale\<close>; a fit takes the sample and the method and returns the tuple
  scipy documents (the shape first, then \<open>loc\<close>, then \<open>scale\<close>); \<open>norm_ppf1\<close> is
  \<open>norm.ppf\<close> called on one number with the default \<open>loc = 0\<close>, \<open>scale = 1\<close>; \<open>fmin\<close> takes
  the objective, the start vector, the extra argument of the objective, \<open>maxiter\<close> and
  \<open>maxfun\<close>; \<open>Lmom\<close> is \<open>Lmoments(data).Lmom()\<close>.
\<close>

subsection \<open>Parameter sets and instances\<close>

text \<open>
  A parameter set is a \<open>dict\<close>; \<open>parameters.get(k)\<close> is application, \<open>None\<close> for a key
  that is not there. Comparing \<open>None\<close> with a number raises \<open>TypeError\<close>, and so does a
  scipy function that receives \<open>None\<close> where it computes with a number.
\<close>

type_synonym pdict = "string \<rightharpoonup> real"

definition none_compare :: error where
  "none_compare = TypeError ''<= not supported between instances of NoneType and int''"

definition none_operand :: error where
  "none_operand = TypeError ''unsupported operand type NoneType''"

definition lib_call2 :: "(real \<Rightarrow> real \<Rightarrow> 'a) \<Rightarrow> real option \<Rightarrow> real option \<Rightarrow> error + 'a" where
  "lib_call2 f loc scale =
     (case (loc, scale) of
        (Some l, Some s) \<Rightarrow> Inr (f l s)
      | _ \<Rightarrow> Inl none_operand)"

definition lib_call3 ::
  "(real \<Rightarrow> real \<Rightarrow> real \<Rightarrow> 'a) \<Rightarrow> real option \<Rightarrow> real option \<Rightarrow> real option \<Rightarrow> error + 'a" where
  "lib_call3 f shape loc scale =
     (case (shape, loc, scale) of
        (Some c, Some l, Some s) \<Rightarrow> Inr (f c l s)
      | _ \<Rightarrow> Inl none_operand)"

datatype family = Gumbel | GEV | Exponential | Normal

datatype 'a attr = Unset | Attr 'a

text \<open>
  The four attributes a constructor sets only when \<open>data\<close> is a list or an array.
  \<open>KStable\<close> is \<open>1.22 / sqrt n\<close>; it is \<open>None\<close> for the float \<open>inf\<close> of an empty sample.
\<close>

record sample_attrs =
  data :: "real list"
  data_sorted :: "real list"
  cdf_Weibul :: "real list"
  KStable :: "real option"

text \<open>
  An instance. \<open>sample = None\<close>: the four attributes above do not exist. An attribute
  that is \<open>Unset\<close> does not exist either: reading it raises \<open>AttributeError\<close>.
  \<open>self_loc\<close> and \<open>self_scale\<close> are the attributes \<open>loc\<close> and \<open>scale\<close> that only
  \<open>Normal.__init__\<close> sets.
\<close>

record dist =
  family :: family
  sample :: "sample_attrs option"
  parameters :: "pdict option attr"
  self_loc :: "real option attr"
  self_scale :: "real option attr"
  Dstatic :: "real option"
  KS_Pvalue :: "real option"
  chistatic :: "real option"
  chi_Pvalue :: "real option"

definition mk_sample :: "real list \<Rightarrow> sample_attrs" where
  "mk_sample xs =
     \<lparr>data = xs, data_sorted = sort xs, cdf_Weibul = weibul xs False,
      KStable = (if length xs = 0 then None else Some (1.22 / sqrt (real (length xs))))\<rparr>"

definition AbstractDistribution_init :: "family \<Rightarrow> real list option \<Rightarrow> pdict option \<Rightarrow> dist" where
  \<comment> \<open>\<open>AbstractDistribution.__init__\<close>, which \<open>Gumbel\<close>, \<open>GEV\<close> and \<open>Exponential\<close> call.\<close>
  "AbstractDistribution_init fam xs ps =
     \<lparr>family = fam, sample = map_option mk_sample xs, parameters = Attr ps,
      self_loc = Unset, self_scale = Unset,
      Dstatic = None, KS_Pvalue = None, chistatic = None, chi_Pvalue = None\<rparr>"

definition Normal_init :: "real list option \<Rightarrow> real option \<Rightarrow> real option \<Rightarrow> dist" where
  \<comment> \<open>\<open>Normal.__init__(data, loc, scale)\<close>: no call of the base constructor, no
      \<open>parameters\<close> attribute.\<close>
  "Normal_init xs l s =
     \<lparr>family = Normal, sample = map_option mk_sample xs, parameters = Unset,
      self_loc = Attr l, self_scale = Attr s,
      Dstatic = None, KS_Pvalue = None, chistatic = None, chi_Pvalue = None\<rparr>"

definition new_dist :: "family \<Rightarrow> real list option \<Rightarrow> pdict option \<Rightarrow> dist" where
  \<comment> \<open>An instance constructed with a sample and, for the three families whose
      constructor takes them, parameters.\<close>
  "new_dist fam xs ps =
     (case fam of
        Normal \<Rightarrow> Normal_init xs None None
      | _ \<Rightarrow> AbstractDistribution_init fam xs ps)"

definition self_data :: "dist \<Rightarrow> error + real list" where
  \<comment> \<open>Reading \<open>self.data\<close>.\<close>
  "self_data self =
     (case sample self of None \<Rightarrow> Inl (AttributeError ''data'') | Some s \<Rightarrow> Inr (data s))"

definition AbstractDistribution_pdf :: "dist \<Rightarrow> real list option \<Rightarrow> error + real list" where
  \<comment> \<open>The body of the abstract \<open>pdf\<close>, which the subclasses call: it selects the series.\<close>
  "AbstractDistribution_pdf self actual_data =
     (case actual_data of None \<Rightarrow> self_data self | Some ts \<Rightarrow> Inr ts)"

definition cdf_series :: "dist \<Rightarrow> real list option \<Rightarrow> error + real list" where
  \<comment> \<open>The first statement of every \<open>cdf\<close>: \<open>actual_data\<close> left at its default \<open>True\<close>
      (here \<open>None\<close>) selects \<open>self.data\<close>.\<close>
  "cdf_series self actual_data =
     (case actual_data of None \<Rightarrow> self_data self | Some ts \<Rightarrow> Inr ts)"

subsection \<open>Gumbel\<close>

definition Gumbel_pdf_eq :: "numlib \<Rightarrow> real list \<Rightarrow> pdict \<Rightarrow> error + real list" where
  "Gumbel_pdf_eq L ts ps =
     (let loc = ps ''loc''; scale = ps ''scale'' in
      case scale of
        None \<Rightarrow> Inl none_compare
      | Some sc \<Rightarrow>
          if sc \<le> 0 then Inl (ValueError ''Scale parameter is negative'')
          else lib_call2 (gumbel_r_pdf L ts) loc scale)"

definition Gumbel_pdf :: "numlib \<Rightarrow> dist \<Rightarrow> pdict \<Rightarrow> real list option \<Rightarrow> error + real list" where
  "Gumbel_pdf L self ps actual_data =
     sbind (AbstractDistribution_pdf self actual_data) (\<lambda>ts. Gumbel_pdf_eq L ts ps)"

definition Gumbel_cdf_eq :: "numlib \<Rightarrow> real list \<Rightarrow> pdict \<Rightarrow> error + real list" where
  "Gumbel_cdf_eq L ts ps =
     (let loc = ps ''loc''; scale = ps ''scale'' in
      case scale of
        None \<Rightarrow> Inl none_compare
      | Some sc \<Rightarrow>
          if sc \<le> 0 then Inl (ValueError ''Scale parameter is negative'')
          else lib_call2 (gumbel_r_cdf L ts) loc scale)"

definition Gumbel_cdf :: "numlib \<Rightarrow> dist \<Rightarrow> pdict \<Rightarrow> real list option \<Rightarrow> error + real list" where
  "Gumbel_cdf L self ps actual_data =
     sbind (cdf_series self actual_data) (\<lambda>ts. Gumbel_cdf_eq L ts ps)"

definition Gumbel_theoretical_estimate :: "pdict \<Rightarrow> real list \<Rightarrow> error + real list" where
  \<comment> \<open>\<open>any(cdf)\<close> is a \<open>bool\<close>, which the comparisons read as 0 or 1. \<open>ln\<close> is \<open>np.log\<close> on
      positive arguments only.\<close>
  "Gumbel_theoretical_estimate ps cdf =
     (let loc = ps ''loc''; scale = ps ''scale'' in
      case scale of
        None \<Rightarrow> Inl none_compare
      | Some sc \<Rightarrow>
          if sc \<le> 0 then Inl (ValueError ''Scale parameter is negative'')
          else if (of_bool (py_any cdf) :: int) \<le> 0 \<or> (of_bool (py_any cdf) :: int) > 1
          then Inl (ValueError ''cdf Value Invalid'')
          else (case loc of
                  None \<Rightarrow> Inl none_operand
                | Some l \<Rightarrow> Inr (map (\<lambda>p. l - sc * ln (- ln p)) cdf)))"

subsection \<open>GEV\<close>

definition GEV_pdf_eq :: "numlib \<Rightarrow> real list \<Rightarrow> pdict \<Rightarrow> error + real list" where
  "GEV_pdf_eq L ts ps =
     (let loc = ps ''loc''; scale = ps ''scale''; shape = ps ''shape'' in
      lib_call3 (genextreme_pdf L ts) shape loc scale)"

definition GEV_pdf :: "numlib \<Rightarrow> dist \<Rightarrow> pdict \<Rightarrow> real list option \<Rightarrow> error + real list" where
  "GEV_pdf L self ps actual_data =
     sbind (AbstractDistribution_pdf self actual_data) (\<lambda>ts. GEV_pdf_eq L ts ps)"

definition GEV_cdf_eq :: "numlib \<Rightarrow> real list \<Rightarrow> pdict \<Rightarrow> error + real list" where
  "GEV_cdf_eq L ts ps =
     (let loc = ps ''loc''; scale = ps ''scale''; shape = ps ''shape'' in
      lib_call3 (genextreme_cdf L ts) shape loc scale)"

definition GEV_cdf :: "numlib \<Rightarrow> dist \<Rightarrow> pdict \<Rightarrow> real list option \<Rightarrow> error + real list" where
  "GEV_cdf L self ps actual_data =
     (let scale = ps ''scale'' in
      case scale of
        None \<Rightarrow> Inl none_compare
      | Some sc \<Rightarrow>
          if sc \<le> 0 then Inl (ValueError ''Scale parameter is negative'')
          else sbind (cdf_series self actual_data) (\<lambda>ts. GEV_cdf_eq L ts ps))"

definition GEV_theoretical_estimate :: "numlib \<Rightarrow> pdict \<Rightarrow> real list \<Rightarrow> error + real list" where
  "GEV_theoretical_estimate L ps F =
     (let loc = ps ''loc''; scale = ps ''scale''; shape = ps ''shape'' in
      case scale of
        None \<Rightarrow> Inl none_compare
      | Some sc \<Rightarrow>
          if sc \<le> 0 then Inl (ValueError ''Parameters Invalid'')
          else if (of_bool (py_any F) :: int) < 0 \<or> (of_bool (py_any F) :: int) > 1
          then Inl (ValueError ''cdf Value Invalid'')
          else lib_call3 (genextreme_ppf L F) shape loc scale)"

subsection \<open>Exponential\<close>

definition Exponential_pdf_eq :: "numlib \<Rightarrow> real list \<Rightarrow> pdict \<Rightarrow> error + real list" where
  "Exponential_pdf_eq L ts ps =
     (let loc = ps ''loc''; scale = ps ''scale'' in
      lib_call2 (expon_pdf L ts) loc scale)"

definition Exponential_pdf :: "numlib \<Rightarrow> dist \<Rightarrow> pdict \<Rightarrow> real list option \<Rightarrow> error + real list" where
  "Exponential_pdf L self ps actual_data =
     (let scale = ps ''scale'' in
      case scale of
        None \<Rightarrow> Inl none_compare
      | Some sc \<Rightarrow>
          if sc \<le> 0 then Inl (ValueError ''Scale parameter is negative'')
          else sbind (AbstractDistribution_pdf self actual_data)
                 (\<lambda>ts. Exponential_pdf_eq L ts ps))"

definition Exponential_cdf_eq :: "numlib \<Rightarrow> real list \<Rightarrow> pdict \<Rightarrow> error + real list" where
  "Exponential_cdf_eq L ts ps =
     (let loc = ps ''loc''; scale = ps ''scale'' in
      case scale of
        None \<Rightarrow> Inl none_compare
      | Some sc \<Rightarrow>
          if sc \<le> 0 then Inl (ValueError ''Scale parameter is negative'')
          else (case loc of
                  None \<Rightarrow> Inl none_compare
                | Some l \<Rightarrow>
                    if l \<le> 0
                    then Inl (ValueError ''Threshold parameter should be greater than zero'')
                    else lib_call2 (expon_cdf L ts) loc scale))"

definition Exponential_cdf :: "numlib \<Rightarrow> dist \<Rightarrow> pdict \<Rightarrow> real list option \<Rightarrow> error + real list" where
  "Exponential_cdf L self ps actual_data =
     sbind (cdf_series self actual_data) (\<lambda>ts. Exponential_cdf_eq L ts ps)"

definition Exponential_theoretical_estimate ::
  "numlib \<Rightarrow> pdict \<Rightarrow> real list \<Rightarrow> error + real list" where
  "Exponential_theoretical_estimate L ps cdf =
     (let loc = ps ''loc''; scale = ps ''scale'' in
      case scale of
        None \<Rightarrow> Inl none_compare
      | Some sc \<Rightarrow>
          if sc \<le> 0 then Inl (ValueError ''Parameters Invalid'')
          else if (of_bool (py_any cdf) :: int) < 0 \<or> (of_bool (py_any cdf) :: int) > 1
          then Inl (ValueError ''cdf Value Invalid'')
          else lib_call2 (expon_ppf L cdf) loc scale)"

subsection \<open>Normal\<close>

definition Normal_pdf :: "numlib \<Rightarrow> dist \<Rightarrow> pdict \<Rightarrow> real list option \<Rightarrow> error + real list" where
  "Normal_pdf L self ps actual_data =
     (let loc = ps ''loc''; scale = ps ''scale'' in
      case scale of
        None \<Rightarrow> Inl none_compare
      | Some sc \<Rightarrow>
          if sc \<le> 0 then Inl (ValueError ''Scale parameter is negative'')
          else sbind (AbstractDistribution_pdf self actual_data)
                 (\<lambda>ts. lib_call2 (norm_pdf L ts) loc scale))"

definition Normal_cdf :: "numlib \<Rightarrow> dist \<Rightarrow> pdict \<Rightarrow> real list option \<Rightarrow> error + real list" where
  "Normal_cdf L self ps actual_data =
     (let loc = ps ''loc''; scale = ps ''scale'' in
      case scale of
        None \<Rightarrow> Inl none_compare
      | Some sc \<Rightarrow>
          if sc \<le> 0 then Inl (ValueError ''Scale parameter is negative'')
          else (case loc of
                  None \<Rightarrow> Inl none_compare
                | Some l \<Rightarrow>
                    if l \<le> 0
                    then Inl (ValueError ''Threshold parameter should be greater than zero'')
                    else sbind (cdf_series self actual_data)
                           (\<lambda>ts. lib_call2 (norm_cdf L ts) loc scale)))"

definition Normal_theoretical_estimate :: "numlib \<Rightarrow> pdict \<Rightarrow> real list \<Rightarrow> error + real list" where
  "Normal_theoretical_estimate L ps cdf =
     (let loc = ps ''loc''; scale = ps ''scale'' in
      case scale of
        None \<Rightarrow> Inl none_compare
      | Some sc \<Rightarrow>
          if sc \<le> 0 then Inl (ValueError ''Parameters Invalid'')
          else if (of_bool (py_any cdf) :: int) < 0 \<or> (of_bool (py_any cdf) :: int) > 1
          then Inl (ValueError ''cdf Value Invalid'')
          else lib_call2 (norm_ppf L cdf) loc scale)"

subsection \<open>Goodness of fit: the methods of the base class\<close>

definition theoretical_estimate ::
  "family \<Rightarrow> numlib \<Rightarrow> pdict \<Rightarrow> real list \<Rightarrow> error + real list" where
  \<comment> \<open>\<open>self.theoretical_estimate\<close>: the override of the instance's class.\<close>
  "theoretical_estimate fam L ps cdf =
     (case fam of
        Gumbel \<Rightarrow> Gumbel_theoretical_estimate ps cdf
      | GEV \<Rightarrow> GEV_theoretical_estimate L ps cdf
      | Exponential \<Rightarrow> Exponential_theoretical_estimate L ps cdf
      | Normal \<Rightarrow> Normal_theoretical_estimate L ps cdf)"

text \<open>What a call prints: a line of text, a line ending in a number, or an exception.\<close>

datatype out = Msg string | MsgVal string real | MsgErr error

type_synonym 'a outcome = "(error + 'a) \<times> dist \<times> out list"

definition not_fit_ks :: string where
  "not_fit_ks = ''Value of parameters is unknown please use 'EstimateParameter' to obtain estimate the distribution parameters''"

definition not_fit_chisquare :: string where
  "not_fit_chisquare = ''Value of loc/scale parameter is unknown please use 'EstimateParameter' to obtain them''"

definition ks :: "numlib \<Rightarrow> dist \<Rightarrow> (real \<times> real) outcome" where
  "ks L self =
     (case parameters self of
        Unset \<Rightarrow> (Inl (AttributeError ''parameters''), self, [])
      | Attr None \<Rightarrow> (Inl (ValueError not_fit_ks), self, [])
      | Attr (Some ps) \<Rightarrow>
          (case sample self of
             None \<Rightarrow> (Inl (AttributeError ''cdf_Weibul''), self, [])
           | Some s \<Rightarrow>
               (case theoretical_estimate (family self) L ps (cdf_Weibul s) of
                  Inl e \<Rightarrow> (Inl e, self, [])
                | Inr Qth \<Rightarrow>
                    (case ks_2samp L (data s) Qth of
                       Inl e \<Rightarrow> (Inl e, self, [])
                     | Inr (statistic, pvalue) \<Rightarrow>
                         (Inr (statistic, pvalue),
                          self\<lparr>Dstatic := Some statistic, KS_Pvalue := Some pvalue\<rparr>,
                          [Msg ''-----KS Test--------'',
                           MsgVal ''Statistic = '' statistic,
                           Msg (if (case KStable s of None \<Rightarrow> True | Some k \<Rightarrow> statistic < k)
                                then ''Accept Hypothesis'' else ''reject Hypothesis''),
                           MsgVal ''P value = '' pvalue])))))"

definition chisquare :: "numlib \<Rightarrow> dist \<Rightarrow> (real \<times> real) option outcome" where
  \<comment> \<open>The result \<open>None\<close> is the bare \<open>return\<close> of the \<open>except Exception\<close> branch.\<close>
  "chisquare L self =
     (case parameters self of
        Unset \<Rightarrow> (Inl (AttributeError ''parameters''), self, [])
      | Attr None \<Rightarrow> (Inl (ValueError not_fit_chisquare), self, [])
      | Attr (Some ps) \<Rightarrow>
          (case sample self of
             None \<Rightarrow> (Inl (AttributeError ''cdf_Weibul''), self, [])
           | Some s \<Rightarrow>
               (case theoretical_estimate (family self) L ps (cdf_Weibul s) of
                  Inl e \<Rightarrow> (Inl e, self, [])
                | Inr Qth \<Rightarrow>
                    (case sbind (standardize L Qth) (\<lambda>a.
                          sbind (standardize L (data s)) (\<lambda>b. scipy_chisquare L a b)) of
                       Inl e \<Rightarrow> (Inr None, self, [MsgErr e])
                     | Inr (statistic, pvalue) \<Rightarrow>
                         (Inr (Some (statistic, pvalue)),
                          self\<lparr>chistatic := Some statistic, chi_Pvalue := Some pvalue\<rparr>,
                          [Msg ''-----chisquare Test-----'',
                           MsgVal ''Statistic = '' statistic,
                           MsgVal ''P value = '' pvalue])))))"

subsection \<open>Gumbel: the closed-form confidence interval\<close>

definition Gumbel_confidence_interval ::
  "numlib \<Rightarrow> dist \<Rightarrow> pdict \<Rightarrow> real list \<Rightarrow> real \<Rightarrow> error + real list \<times> real list" where
  \<comment> \<open>The result is the pair \<open>(Qupper, Qlower)\<close>. \<open>StdError\<close> reads \<open>self.data\<close> once for
      each element of \<open>Y\<close>, so not at all when \<open>Y\<close> is empty; the two last comprehensions
      run over \<open>range(len(self.data))\<close> and index \<open>Qth\<close> and \<open>StdError\<close>.\<close>
  "Gumbel_confidence_interval L self ps F alpha =
     (let scale = ps ''scale'' in
      case scale of
        None \<Rightarrow> Inl none_compare
      | Some sc \<Rightarrow>
          if sc \<le> 0 then Inl (ValueError ''Scale parameter is negative'')
          else
            sbind (Gumbel_theoretical_estimate ps F) (\<lambda>Qth.
            let Y = map (\<lambda>j. - ln (- ln j)) F in
            sbind (if Y = [] then Inr []
                   else sbind (self_data self) (\<lambda>d.
                     Inr (map (\<lambda>j. (sc / sqrt (real (length d)))
                                    * sqrt (1.1087 + 0.5140 * j + 0.6079 * j\<^sup>2)) Y)))
              (\<lambda>StdError.
            let v = norm_ppf1 L (1 - alpha / 2) in
            sbind (self_data self) (\<lambda>d.
            sbind (collect (\<lambda>j. sbind (py_index Qth j) (\<lambda>q.
                                 sbind (py_index StdError j) (\<lambda>e. Inr (q + v * e))))
                     [0..<length d]) (\<lambda>Qupper.
            sbind (collect (\<lambda>j. sbind (py_index Qth j) (\<lambda>q.
                                 sbind (py_index StdError j) (\<lambda>e. Inr (q - v * e))))
                     [0..<length d]) (\<lambda>Qlower.
            Inr (Qupper, Qlower)))))))"

subsection \<open>Parameter estimation\<close>

definition methods :: "string list" where
  "methods = [''mle'', ''mm'', ''lmoments'', ''optimization'']"

definition method_msg :: string where
  "method_msg = ''value should be 'mle', 'mm', 'lmoments' or 'optimization'' @ [CHR 0x27]"

definition tests_plain :: "numlib \<Rightarrow> dist \<Rightarrow> pdict \<Rightarrow> pdict outcome" where
  \<comment> \<open>\<open>self.ks(); self.chisquare(); return Param\<close>, as in \<open>Gumbel.estimate_parameter\<close>.\<close>
  "tests_plain L self Param =
     (case ks L self of
        (Inl e, self1, o1) \<Rightarrow> (Inl e, self1, o1)
      | (Inr r, self1, o1) \<Rightarrow>
          (case chisquare L self1 of
             (Inl e, self2, o2) \<Rightarrow> (Inl e, self2, o1 @ o2)
           | (Inr c, self2, o2) \<Rightarrow> (Inr Param, self2, o1 @ o2)))"

definition tests_guarded :: "numlib \<Rightarrow> dist \<Rightarrow> pdict \<Rightarrow> pdict outcome" where
  \<comment> \<open>The same with \<open>self.chisquare()\<close> inside \<open>try ... except ValueError\<close>, as in the
      three other classes.\<close>
  "tests_guarded L self Param =
     (case ks L self of
        (Inl e, self1, o1) \<Rightarrow> (Inl e, self1, o1)
      | (Inr r, self1, o1) \<Rightarrow>
          (case chisquare L self1 of
             (Inl (ValueError m), self2, o2) \<Rightarrow>
               (Inr Param, self2, o1 @ o2 @ [Msg ''chisquare test failed''])
           | (Inl e, self2, o2) \<Rightarrow> (Inl e, self2, o1 @ o2)
           | (Inr c, self2, o2) \<Rightarrow> (Inr Param, self2, o1 @ o2)))"

definition optimization ::
  "numlib \<Rightarrow> (real list \<Rightarrow> string \<Rightarrow> error + real list) \<Rightarrow> nat \<Rightarrow> dist \<Rightarrow> objfun \<Rightarrow> real
   \<Rightarrow> error + real list" where
  \<comment> \<open>The body of the \<open>"optimization"\<close> branch once both arguments are there, for a fit
      routine whose tuple has \<open>k\<close> components: the fit with \<open>"mle"\<close>, \<open>so.fmin\<close> started at
      \<open>[threshold, Param[0], ..., Param[k-1]]\<close> with \<open>maxiter=500, maxfun=500\<close>, and
      \<open>Param = [Param[1], ..., Param[k]]\<close>.\<close>
  "optimization L fit k self ObjFunc threshold =
     sbind (self_data self) (\<lambda>d.
     sbind (fit d ''mle'') (\<lambda>Param.
     sbind (collect (py_index Param) [0..<k]) (\<lambda>start.
     sbind (fmin L ObjFunc (threshold # start) d 500 500) (\<lambda>Param.
     collect (py_index Param) [1..<k + 1]))))"

definition Gumbel_Param ::
  "numlib \<Rightarrow> dist \<Rightarrow> string \<Rightarrow> objfun option \<Rightarrow> real option \<Rightarrow> error + real list" where
  \<comment> \<open>The variable \<open>Param\<close> after the \<open>if/elif\<close> chain; \<open>method\<close> is one of the four.\<close>
  "Gumbel_Param L self method ObjFunc threshold =
     (if method = ''mle'' \<or> method = ''mm'' then
        sbind (self_data self) (\<lambda>d. gumbel_r_fit L d method)
      else if method = ''lmoments'' then
        sbind (self_data self) (\<lambda>d. sbind (Lmom L d) (Lmoments_gumbel L))
      else
        (case (ObjFunc, threshold) of
           (Some f, Some thr) \<Rightarrow> optimization L (gumbel_r_fit L) 2 self f thr
         | _ \<Rightarrow> Inl (TypeError ''threshold should be numeric value'')))"

definition Gumbel_estimate_parameter ::
  "numlib \<Rightarrow> dist \<Rightarrow> string \<Rightarrow> objfun option \<Rightarrow> real option \<Rightarrow> bool \<Rightarrow> pdict outcome" where
  "Gumbel_estimate_parameter L self method0 ObjFunc threshold test =
     (let method = lower method0 in
      if method \<notin> set methods then
        (Inl (ValueError (method @ '' '' @ method_msg)), self, [])
      else
        (case sbind (Gumbel_Param L self method ObjFunc threshold) (\<lambda>Param.
              sbind (py_index Param 0) (\<lambda>p0.
              sbind (py_index Param 1) (\<lambda>p1.
              Inr [''loc'' \<mapsto> p0, ''scale'' \<mapsto> p1]))) of
           Inl e \<Rightarrow> (Inl e, self, [])
         | Inr Param \<Rightarrow>
             (let self1 = self\<lparr>parameters := Attr (Some Param)\<rparr> in
              if test then tests_plain L self1 Param else (Inr Param, self1, []))))"

definition GEV_Param ::
  "numlib \<Rightarrow> dist \<Rightarrow> string \<Rightarrow> objfun option \<Rightarrow> real option \<Rightarrow> error + real list" where
  "GEV_Param L self method ObjFunc threshold =
     (if method = ''mle'' \<or> method = ''mm'' then
        sbind (self_data self) (\<lambda>d. genextreme_fit L d method)
      else if method = ''lmoments'' then
        sbind (self_data self) (\<lambda>d. sbind (Lmom L d) (Lmoments_gev L))
      else
        (case (ObjFunc, threshold) of
           (Some f, Some thr) \<Rightarrow> optimization L (genextreme_fit L) 3 self f thr
         | _ \<Rightarrow> Inl (TypeError ''ObjFunc and threshold should be numeric value'')))"

definition GEV_estimate_parameter ::
  "numlib \<Rightarrow> dist \<Rightarrow> string \<Rightarrow> objfun option \<Rightarrow> real option \<Rightarrow> bool \<Rightarrow> pdict outcome" where
  "GEV_estimate_parameter L self method0 ObjFunc threshold test =
     (let method = lower method0 in
      if method \<notin> set methods then
        (Inl (ValueError (method @ method_msg)), self, [])
      else
        (case sbind (GEV_Param L self method ObjFunc threshold) (\<lambda>Param.
              sbind (py_index Param 1) (\<lambda>p1.
              sbind (py_index Param 2) (\<lambda>p2.
              sbind (py_index Param 0) (\<lambda>p0.
              Inr [''loc'' \<mapsto> p1, ''scale'' \<mapsto> p2, ''shape'' \<mapsto> p0])))) of
           Inl e \<Rightarrow> (Inl e, self, [])
         | Inr Param \<Rightarrow>
             (let self1 = self\<lparr>parameters := Attr (Some Param)\<rparr> in
              if test then tests_guarded L self1 Param else (Inr Param, self1, []))))"

definition Exponential_Param ::
  "numlib \<Rightarrow> dist \<Rightarrow> string \<Rightarrow> objfun option \<Rightarrow> real option \<Rightarrow> error + real list" where
  "Exponential_Param L self method ObjFunc threshold =
     (if method = ''mle'' \<or> method = ''mm'' then
        sbind (self_data self) (\<lambda>d. expon_fit L d method)
      else if method = ''lmoments'' then
        sbind (self_data self) (\<lambda>d. sbind (Lmom L d) (Lmoments_exponential L))
      else
        (case (ObjFunc, threshold) of
           (Some f, Some thr) \<Rightarrow> optimization L (expon_fit L) 2 self f thr
         | _ \<Rightarrow> Inl (TypeError ''ObjFunc and threshold should be numeric value'')))"

definition Exponential_estimate_parameter ::
  "numlib \<Rightarrow> dist \<Rightarrow> string \<Rightarrow> objfun option \<Rightarrow> real option \<Rightarrow> bool \<Rightarrow> pdict outcome" where
  "Exponential_estimate_parameter L self method0 ObjFunc threshold test =
     (let method = lower method0 in
      if method \<notin> set methods then
        (Inl (ValueError (method @ method_msg)), self, [])
      else
        (case sbind (Exponential_Param L self method ObjFunc threshold) (\<lambda>Param.
              sbind (py_index Param 0) (\<lambda>p0.
              sbind (py_index Param 1) (\<lambda>p1.
              Inr [''loc'' \<mapsto> p0, ''scale'' \<mapsto> p1]))) of
           Inl e \<Rightarrow> (Inl e, self, [])
         | Inr Param \<Rightarrow>
             (let self1 = self\<lparr>parameters := Attr (Some Param)\<rparr> in
              if test then tests_guarded L self1 Param else (Inr Param, self1, []))))"

definition Normal_Param ::
  "numlib \<Rightarrow> dist \<Rightarrow> string \<Rightarrow> objfun option \<Rightarrow> real option \<Rightarrow> error + real list" where
  "Normal_Param L self method ObjFunc threshold =
     (if method = ''mle'' \<or> method = ''mm'' then
        sbind (self_data self) (\<lambda>d. norm_fit L d method)
      else if method = ''lmoments'' then
        sbind (self_data self) (\<lambda>d. sbind (Lmom L d) (Lmoments_normal L))
      else
        (case (ObjFunc, threshold) of
           (Some f, Some thr) \<Rightarrow> optimization L (norm_fit L) 2 self f thr
         | _ \<Rightarrow> Inl (TypeError ''ObjFunc and threshold should be numeric value'')))"

definition Normal_estimate_parameter ::
  "numlib \<Rightarrow> dist \<Rightarrow> string \<Rightarrow> objfun option \<Rightarrow> real option \<Rightarrow> bool \<Rightarrow> pdict outcome" where
  "Normal_estimate_parameter L self method0 ObjFunc threshold test =
     (let method = lower method0 in
      if method \<notin> set methods then
        (Inl (ValueError (method @ method_msg)), self, [])
      else
        (case sbind (Normal_Param L self method ObjFunc threshold) (\<lambda>Param.
              sbind (py_index Param 0) (\<lambda>p0.
              sbind (py_index Param 1) (\<lambda>p1.
              Inr [''loc'' \<mapsto> p0, ''scale'' \<mapsto> p1]))) of
           Inl e \<Rightarrow> (Inl e, self, [])
         | Inr Param \<Rightarrow>
             (let self1 = self\<lparr>parameters := Attr (Some Param)\<rparr> in
              if test then tests_guarded L self1 Param else (Inr Param, self1, []))))"

definition estimate_parameter ::
  "numlib \<Rightarrow> dist \<Rightarrow> string \<Rightarrow> objfun option \<Rightarrow> real option \<Rightarrow> bool \<Rightarrow> pdict outcome" where
  \<comment> \<open>\<open>self.estimate_parameter(method, ObjFunc, threshold, test)\<close>: the method of the
      instance's class.\<close>
  "estimate_parameter L self =
     (case family self of
        Gumbel \<Rightarrow> Gumbel_estimate_parameter L self
      | GEV \<Rightarrow> GEV_estimate_parameter L self
      | Exponential \<Rightarrow> Exponential_estimate_parameter L self
      | Normal \<Rightarrow> Normal_estimate_parameter L self)"

text \<open>
  For statements about the four classes at once: the fit routine each class calls, the
  number of components of its tuple, the dictionary each class builds from the list
  \<open>Param\<close>, and the message of the \<open>TypeError\<close> of the \<open>"optimization"\<close> branch.
\<close>

definition class_fit :: "numlib \<Rightarrow> family \<Rightarrow> real list \<Rightarrow> string \<Rightarrow> error + real list" where
  "class_fit L fam =
     (case fam of
        Gumbel \<Rightarrow> gumbel_r_fit L
      | GEV \<Rightarrow> genextreme_fit L
      | Exponential \<Rightarrow> expon_fit L
      | Normal \<Rightarrow> norm_fit L)"

definition n_params :: "family \<Rightarrow> nat" where
  "n_params fam = (case fam of GEV \<Rightarrow> 3 | _ \<Rightarrow> 2)"

definition class_dict :: "family \<Rightarrow> real list \<Rightarrow> pdict" where
  "class_dict fam Param =
     (case fam of
        GEV \<Rightarrow> [''loc'' \<mapsto> Param ! 1, ''scale'' \<mapsto> Param ! 2, ''shape'' \<mapsto> Param ! 0]
      | _ \<Rightarrow> [''loc'' \<mapsto> Param ! 0, ''scale'' \<mapsto> Param ! 1])"

definition missing_msg :: "family \<Rightarrow> string" where
  "missing_msg fam =
     (case fam of
        Gumbel \<Rightarrow> ''threshold should be numeric value''
      | _ \<Rightarrow> ''ObjFunc and threshold should be numeric value'')"

subsection \<open>A library for closed examples\<close>

text \<open>
  The examples below run the operations on concrete inputs and need some library to run
  them with. This one returns zeros for densities, probabilities and quantiles, fixed
  tuples for the fits, its start vector for \<open>fmin\<close> and fixed results for the tests.
  Nothing about scipy is derived from it.
\<close>

definition lib0 :: numlib where
  "lib0 =
     \<lparr>gumbel_r_pdf = (\<lambda>ts l s. map (\<lambda>x. 0) ts),
      gumbel_r_cdf = (\<lambda>ts l s. map (\<lambda>x. 0) ts),
      gumbel_r_fit = (\<lambda>d m. Inr [0, 1]),
      genextreme_pdf = (\<lambda>ts c l s. map (\<lambda>x. 0) ts),
      genextreme_cdf = (\<lambda>ts c l s. map (\<lambda>x. 0) ts),
      genextreme_ppf = (\<lambda>ts c l s. map (\<lambda>x. 0) ts),
      genextreme_fit = (\<lambda>d m. Inr [0, 0, 1]),
      expon_pdf = (\<lambda>ts l s. map (\<lambda>x. 0) ts),
      expon_cdf = (\<lambda>ts l s. map (\<lambda>x. 0) ts),
      expon_ppf = (\<lambda>ts l s. map (\<lambda>x. 0) ts),
      expon_fit = (\<lambda>d m. Inr [0, 1]),
      norm_pdf = (\<lambda>ts l s. map (\<lambda>x. 0) ts),
      norm_cdf = (\<lambda>ts l s. map (\<lambda>x. 0) ts),
      norm_ppf = (\<lambda>ts l s. map (\<lambda>x. 0) ts),
      norm_ppf1 = (\<lambda>q. 2 * q - 1),
      norm_fit = (\<lambda>d m. Inr [0, 1]),
      ks_2samp = (\<lambda>a b. Inr (0, 1)),
      scipy_chisquare = (\<lambda>a b. Inr (0, 1)),
      standardize = (\<lambda>xs. Inr xs),
      fmin = (\<lambda>f x0 d maxiter maxfun. Inr x0),
      Lmom = (\<lambda>d. Inr d),
      Lmoments_gumbel = (\<lambda>m. Inr [0, 1]),
      Lmoments_gev = (\<lambda>m. Inr [0, 0, 1]),
      Lmoments_exponential = (\<lambda>m. Inr [0, 1]),
      Lmoments_normal = (\<lambda>m. Inr [0, 1])\<rparr>"

text \<open>The same library with a Chi-square test that raises.\<close>

definition failing_chisquare :: numlib where
  "failing_chisquare =
     lib0\<lparr>scipy_chisquare := (\<lambda>a b. Inl (ValueError ''observed and expected sums differ''))\<rparr>"

section \<open>Properties\<close>

subsection \<open>Plotting positions\<close>

lemma weibul_st_fst:
  "r < length s \<Longrightarrow>
   fst (weibul_st s r rp) =
     (let cdf = map (\<lambda>i. real i / real (length (s ! r) + 1)) [1..<length (s ! r) + 1]
      in if rp then return_period cdf else cdf)"
  by (simp add: weibul_st_def np_array_def ndarray_sort_def Let_def)

lemma weibul_st_snd:
  "snd (weibul_st s r rp) = s @ [sort (s ! r)]"
  by (simp add: weibul_st_def np_array_def ndarray_sort_def Let_def nth_append)

lemma weibul_eq:
  "weibul xs rp =
     (let cdf = map (\<lambda>i. real i / real (length xs + 1)) [1..<length xs + 1]
      in if rp then return_period cdf else cdf)"
  unfolding weibul_def by (subst weibul_st_fst) simp_all

text \<open>
  C5. For a sample of length \<open>n\<close>, \<open>weibul\<close> with \<open>return_period\<close> false returns exactly
  \<open>n\<close> values, the \<open>i\<close>-th (counting from 1) equal to \<open>i / (n + 1)\<close>, none of them equal
  to 1; with \<open>return_period\<close> true it returns the \<open>n\<close> values \<open>1 / (1 - i / (n + 1))\<close>.
\<close>

theorem weibul_plotting_positions:
  assumes "r < length s" and "n = length (s ! r)"
  shows "length (fst (weibul_st s r False)) = n
       \<and> (\<forall>i. 1 \<le> i \<and> i \<le> n \<longrightarrow>
             fst (weibul_st s r False) ! (i - 1) = real i / real (n + 1)
           \<and> fst (weibul_st s r False) ! (i - 1) \<noteq> 1)
       \<and> length (fst (weibul_st s r True)) = n
       \<and> (\<forall>i. 1 \<le> i \<and> i \<le> n \<longrightarrow>
             fst (weibul_st s r True) ! (i - 1) = 1 / (1 - real i / real (n + 1)))"
proof -
  have nth: "map f [1..<n + 1] ! (i - 1) = f i" if "1 \<le> i" "i \<le> n" for i and f :: "nat \<Rightarrow> real"
  proof -
    from that have "i - 1 < length [1..<n + 1]" by simp
    then have "map f [1..<n + 1] ! (i - 1) = f ([1..<n + 1] ! (i - 1))"
      by (rule nth_map)
    also from that have "[1..<n + 1] ! (i - 1) = i"
      by (simp del: upt_Suc)
    finally show ?thesis .
  qed
  have ne: "real i / real (n + 1) \<noteq> 1" if "i \<le> n" for i
    using that by simp
  have F: "fst (weibul_st s r False) = map (\<lambda>i. real i / real (n + 1)) [1..<n + 1]"
    using assms by (simp add: weibul_st_fst Let_def del: upt_Suc)
  have T: "fst (weibul_st s r True) = map (\<lambda>i. 1 / (1 - real i / real (n + 1))) [1..<n + 1]"
    using assms by (simp add: weibul_st_fst return_period_def Let_def comp_def del: upt_Suc)
  have lenF: "length (fst (weibul_st s r False)) = n"
    unfolding F by simp
  have lenT: "length (fst (weibul_st s r True)) = n"
    unfolding T by simp
  have valF: "fst (weibul_st s r False) ! (i - 1) = real i / real (n + 1)
            \<and> fst (weibul_st s r False) ! (i - 1) \<noteq> 1" if "1 \<le> i \<and> i \<le> n" for i
    unfolding F using that nth [of i "\<lambda>i. real i / real (n + 1)"] ne [of i] by metis
  have valT: "fst (weibul_st s r True) ! (i - 1) = 1 / (1 - real i / real (n + 1))"
    if "1 \<le> i \<and> i \<le> n" for i
    unfolding T using that nth [of i "\<lambda>i. 1 / (1 - real i / real (n + 1))"] by metis
  from lenF lenT valF valT show ?thesis by blast
qed

theorem weibul_plotting_positions_witness:
  "(0::nat) < length [[3, 1, 2::real]] \<and> (3::nat) = length ([[3, 1, 2::real]] ! 0)
   \<and> fst (weibul_st [[3, 1, 2]] 0 False) = [1 / 4, 1 / 2, 3 / 4]
   \<and> fst (weibul_st [[3, 1, 2]] 0 True) ! 2 = 4"
  using weibul_plotting_positions [of 0 "[[3, 1, 2]]" 3]
  by (simp add: weibul_st_fst return_period_def Let_def upt_rec)

text \<open>
  C9, as the specification states it: after \<open>weibul(data)\<close> the caller's array is in
  ascending order. It is not: \<open>np.array\<close> copies, and the copy is what is sorted.
\<close>

theorem weibul_sorts_argument_counterexample:
  "\<not> sorted (snd (weibul_st [[3, 1, 2]] 0 False) ! 0)"
  by (simp add: weibul_st_snd)

text \<open>
  C9, amended. \<open>weibul\<close> leaves every array that existed before the call as it was, the
  caller's included; the ascending order is that of a new array, a copy of the argument,
  which the call allocates and sorts.
\<close>

theorem weibul_keeps_argument:
  assumes "r < length s"
  shows "snd (weibul_st s r rp) ! r = s ! r
       \<and> (\<forall>a < length s. snd (weibul_st s r rp) ! a = s ! a)
       \<and> length (snd (weibul_st s r rp)) = length s + 1
       \<and> snd (weibul_st s r rp) ! length s = sort (s ! r)"
  using assms by (simp add: weibul_st_snd nth_append)

theorem weibul_keeps_argument_witness:
  "(0::nat) < length [[3, 1, 2::real]]
   \<and> snd (weibul_st [[3, 1, 2]] 0 False) ! 0 = [3, 1, 2]
   \<and> snd (weibul_st [[3, 1, 2]] 0 False) ! 1 = [1, 2, 3]"
  using weibul_keeps_argument [of 0 "[[3, 1, 2]]" False]
  by simp

subsection \<open>Auxiliary facts\<close>

lemma sbind_simps:
  "sbind (Inl e) f = Inl e"
  "sbind (Inr v) f = f v"
  by (simp_all add: sbind_def)

lemma py_any_iff: "py_any xs \<longleftrightarrow> (\<exists>x \<in> set xs. x \<noteq> 0)"
  by (simp add: py_any_def list_ex_iff)

lemma collect_all_Inr:
  "(\<And>j. j \<in> set js \<Longrightarrow> f j = Inr (g j)) \<Longrightarrow> collect f js = Inr (map g js)"
  by (induction js) simp_all

lemma collect_Inl:
  "\<lbrakk>j \<in> set js; f j = Inl e; \<And>i. i \<in> set js \<Longrightarrow> f i = Inl e \<or> (\<exists>v. f i = Inr v)\<rbrakk>
   \<Longrightarrow> collect f js = Inl e"
proof (induction js)
  case Nil
  then show ?case by simp
next
  case (Cons i js)
  show ?case
  proof (cases "f i")
    case (Inl e')
    with Cons.prems(3) [of i] show ?thesis by auto
  next
    case (Inr v)
    with Cons.prems have "j \<in> set js" by auto
    with Cons have "collect f js = Inl e" by auto
    with Inr show ?thesis by simp
  qed
qed

lemmas op_defs =
  Gumbel_pdf_def Gumbel_pdf_eq_def Gumbel_cdf_def Gumbel_cdf_eq_def Gumbel_theoretical_estimate_def
  GEV_pdf_def GEV_pdf_eq_def GEV_cdf_def GEV_cdf_eq_def GEV_theoretical_estimate_def
  Exponential_pdf_def Exponential_pdf_eq_def Exponential_cdf_def Exponential_cdf_eq_def
  Exponential_theoretical_estimate_def
  Normal_pdf_def Normal_cdf_def Normal_theoretical_estimate_def
  AbstractDistribution_pdf_def cdf_series_def self_data_def lib_call2_def lib_call3_def

subsection \<open>Validation of the scale\<close>

text \<open>
  Eleven of the twelve operations reject a scale that is not positive, whatever the other
  parameters are, once the series to evaluate is there (the argument \<open>actual_data\<close>, or
  the instance's sample).
\<close>

lemma scale_check_present:
  assumes "ps ''scale'' = Some sc" and "sc \<le> 0"
    and "actual_data = Some ts \<or> sample self = Some s"
  shows "Gumbel_pdf L self ps actual_data = Inl (ValueError ''Scale parameter is negative'')"
    and "Gumbel_cdf L self ps actual_data = Inl (ValueError ''Scale parameter is negative'')"
    and "Gumbel_theoretical_estimate ps F = Inl (ValueError ''Scale parameter is negative'')"
    and "GEV_cdf L self ps actual_data = Inl (ValueError ''Scale parameter is negative'')"
    and "GEV_theoretical_estimate L ps F = Inl (ValueError ''Parameters Invalid'')"
    and "Exponential_pdf L self ps actual_data = Inl (ValueError ''Scale parameter is negative'')"
    and "Exponential_cdf L self ps actual_data = Inl (ValueError ''Scale parameter is negative'')"
    and "Exponential_theoretical_estimate L ps F = Inl (ValueError ''Parameters Invalid'')"
    and "Normal_pdf L self ps actual_data = Inl (ValueError ''Scale parameter is negative'')"
    and "Normal_cdf L self ps actual_data = Inl (ValueError ''Scale parameter is negative'')"
    and "Normal_theoretical_estimate L ps F = Inl (ValueError ''Parameters Invalid'')"
  using assms by (auto simp: op_defs sbind_simps split: option.splits)

text \<open>
  The twelfth, \<open>GEV.pdf\<close>, has no check: neither the method nor \<open>GEV._pdf_eq\<close> compares
  the scale with zero, and the result is whatever \<open>genextreme.pdf\<close> returns.
\<close>

lemma GEV_pdf_unchecked:
  assumes "ps ''loc'' = Some l" and "ps ''scale'' = Some sc" and "ps ''shape'' = Some c"
  shows "GEV_pdf L self ps (Some ts) = Inr (genextreme_pdf L ts c l sc)"
  using assms by (simp add: op_defs sbind_simps)

text \<open>
  C1. Every family's \<open>pdf\<close>, \<open>cdf\<close> and \<open>theoretical_estimate\<close> raise \<open>ValueError\<close> when
  the scale is not positive. The code at \<open>GEV.pdf\<close> with \<open>scale = -1\<close>: no exception, the
  library's array is returned.
\<close>

theorem GEV_pdf_nonpositive_scale:
  "GEV_pdf L self [''loc'' \<mapsto> 0, ''scale'' \<mapsto> - 1, ''shape'' \<mapsto> 1 / 10] (Some [1])
     = Inr (genextreme_pdf L [1] (1 / 10) 0 (- 1))"
  by (simp add: op_defs sbind_simps)

subsection \<open>Validation of the probabilities\<close>

text \<open>
  What the test \<open>any(cdf) <= 0 or any(cdf) > 1\<close> and its variants with \<open>< 0\<close> decide,
  for a positive scale: \<open>Gumbel\<close> rejects exactly the arrays without a nonzero element
  (the empty array among them); the three other families reject nothing.
\<close>

lemma theoretical_estimate_range_check:
  assumes "ps ''loc'' = Some l" and "ps ''scale'' = Some sc" and "0 < sc"
  shows "Gumbel_theoretical_estimate ps F =
           (if \<forall>p \<in> set F. p = 0 then Inl (ValueError ''cdf Value Invalid'')
            else Inr (map (\<lambda>p. l - sc * ln (- ln p)) F))"
    and "ps ''shape'' = Some c \<Longrightarrow>
         GEV_theoretical_estimate L ps F = Inr (genextreme_ppf L F c l sc)"
    and "Exponential_theoretical_estimate L ps F = Inr (expon_ppf L F l sc)"
    and "Normal_theoretical_estimate L ps F = Inr (norm_ppf L F l sc)"
  using assms by (auto simp: op_defs py_any_iff)

text \<open>
  C2. With a positive scale, \<open>theoretical_estimate\<close> raises \<open>ValueError\<close> for an array
  \<open>F\<close> with an element outside \<open>(0, 1]\<close>. The code at \<open>F = [0.5, 2]\<close> and, for Gumbel,
  at \<open>F = [0.5, 0]\<close>: no exception in any family; Gumbel returns the array of
  \<open>loc - scale * log(-log(p))\<close> (in floats \<open>nan\<close> at 2 and \<open>-inf\<close> at 0), the others
  what the library's \<open>ppf\<close> returns.
\<close>

theorem theoretical_estimate_out_of_range:
  "Gumbel_theoretical_estimate [''loc'' \<mapsto> 0, ''scale'' \<mapsto> 1] [1 / 2, 2]
     = Inr (map (\<lambda>p. 0 - 1 * ln (- ln p)) [1 / 2, 2])
   \<and> Gumbel_theoretical_estimate [''loc'' \<mapsto> 0, ''scale'' \<mapsto> 1] [1 / 2, 0]
     = Inr (map (\<lambda>p. 0 - 1 * ln (- ln p)) [1 / 2, 0])
   \<and> GEV_theoretical_estimate L [''loc'' \<mapsto> 0, ''scale'' \<mapsto> 1, ''shape'' \<mapsto> 1 / 10] [1 / 2, 2]
     = Inr (genextreme_ppf L [1 / 2, 2] (1 / 10) 0 1)
   \<and> Exponential_theoretical_estimate L [''loc'' \<mapsto> 0, ''scale'' \<mapsto> 1] [1 / 2, 2]
     = Inr (expon_ppf L [1 / 2, 2] 0 1)
   \<and> Normal_theoretical_estimate L [''loc'' \<mapsto> 0, ''scale'' \<mapsto> 1] [1 / 2, 2]
     = Inr (norm_ppf L [1 / 2, 2] 0 1)"
  by (simp add: op_defs py_any_def)

subsection \<open>Goodness of fit before a fit\<close>

text \<open>
  An instance of \<open>Gumbel\<close>, \<open>GEV\<close> or \<open>Exponential\<close> constructed without parameters:
  \<open>ks\<close> and \<open>chisquare\<close> raise the \<open>ValueError\<close> that asks for an estimate first, and
  the instance is as before.
\<close>

lemma goodness_of_fit_before_fit:
  assumes "fam \<noteq> Normal"
  shows "ks L (new_dist fam xs None) = (Inl (ValueError not_fit_ks), new_dist fam xs None, [])"
    and "chisquare L (new_dist fam xs None)
           = (Inl (ValueError not_fit_chisquare), new_dist fam xs None, [])"
  using assms
  by (cases fam; simp add: ks_def chisquare_def new_dist_def AbstractDistribution_init_def)+

text \<open>
  C6. For every family, \<open>ks\<close> and \<open>chisquare\<close> on an instance without a parameter set
  raise that \<open>ValueError\<close> and leave the instance unchanged. The code at a new \<open>Normal\<close>
  instance: \<open>Normal.__init__\<close> never creates the attribute \<open>parameters\<close>, and both
  methods end in an \<open>AttributeError\<close> (the instance is unchanged).
\<close>

theorem Normal_goodness_of_fit_before_fit:
  "ks L (Normal_init (Some [1, 2]) None None)
     = (Inl (AttributeError ''parameters''), Normal_init (Some [1, 2]) None None, [])
   \<and> chisquare L (Normal_init (Some [1, 2]) None None)
     = (Inl (AttributeError ''parameters''), Normal_init (Some [1, 2]) None None, [])"
  by (simp add: ks_def chisquare_def Normal_init_def)

subsection \<open>The location in \<open>cdf\<close>\<close>

text \<open>
  C8. With a positive scale and a location that is not positive, on any series
  (\<open>actual_data\<close>, or the sample of the instance), \<open>Exponential.cdf\<close> and \<open>Normal.cdf\<close>
  raise \<open>ValueError\<close>, while \<open>Exponential.pdf\<close> and \<open>Normal.pdf\<close> return the library's
  densities.
\<close>

theorem cdf_requires_positive_loc:
  assumes "ps ''scale'' = Some sc" and "0 < sc" and "ps ''loc'' = Some l" and "l \<le> 0"
    and "AbstractDistribution_pdf self actual_data = Inr ts"
  shows "Exponential_cdf L self ps actual_data
           = Inl (ValueError ''Threshold parameter should be greater than zero'')
       \<and> Exponential_pdf L self ps actual_data = Inr (expon_pdf L ts l sc)
       \<and> Normal_cdf L self ps actual_data
           = Inl (ValueError ''Threshold parameter should be greater than zero'')
       \<and> Normal_pdf L self ps actual_data = Inr (norm_pdf L ts l sc)"
  using assms by (auto simp: op_defs sbind_simps split: option.splits)

theorem cdf_requires_positive_loc_witness:
  "[''loc'' \<mapsto> - 1, ''scale'' \<mapsto> 2::real] ''scale'' = Some 2 \<and> (0::real) < 2
   \<and> [''loc'' \<mapsto> - 1, ''scale'' \<mapsto> 2::real] ''loc'' = Some (- 1) \<and> (- 1::real) \<le> 0
   \<and> AbstractDistribution_pdf (new_dist Exponential (Some [3, 4]) None) None = Inr [3, 4]
   \<and> Exponential_cdf lib0 (new_dist Exponential (Some [3, 4]) None)
        [''loc'' \<mapsto> - 1, ''scale'' \<mapsto> 2] None
      = Inl (ValueError ''Threshold parameter should be greater than zero'')
   \<and> Exponential_pdf lib0 (new_dist Exponential (Some [3, 4]) None)
        [''loc'' \<mapsto> - 1, ''scale'' \<mapsto> 2] None = Inr [0, 0]"
  using cdf_requires_positive_loc [of "[''loc'' \<mapsto> - 1, ''scale'' \<mapsto> 2]" 2 "- 1"
      "new_dist Exponential (Some [3, 4]) None" None "[3, 4]" lib0]
  by (simp add: AbstractDistribution_pdf_def self_data_def new_dist_def
      AbstractDistribution_init_def mk_sample_def lib0_def)

subsection \<open>The closed-form confidence interval of Gumbel\<close>

lemmas inst_defs = new_dist_def AbstractDistribution_init_def Normal_init_def mk_sample_def

lemma collect_index2:
  "collect (\<lambda>j. sbind (py_index A j) (\<lambda>q. sbind (py_index B j) (\<lambda>e. Inr (g q e)))) [0..<n]
     = (if n \<le> length A \<and> n \<le> length B then Inr (map (\<lambda>j. g (A ! j) (B ! j)) [0..<n])
        else Inl IndexError)"
proof (cases "n \<le> length A \<and> n \<le> length B")
  case True
  then have "collect (\<lambda>j. sbind (py_index A j) (\<lambda>q. sbind (py_index B j) (\<lambda>e. Inr (g q e)))) [0..<n]
      = Inr (map (\<lambda>j. g (A ! j) (B ! j)) [0..<n])"
    by (intro collect_all_Inr) (simp add: py_index_def sbind_simps)
  with True show ?thesis by simp
next
  case False
  define m where "m = min (length A) (length B)"
  let ?f = "\<lambda>j. sbind (py_index A j) (\<lambda>q. sbind (py_index B j) (\<lambda>e. Inr (g q e)))"
  from False have m: "m \<in> set [0..<n]" by (auto simp: m_def)
  have fm: "?f m = Inl IndexError"
    by (auto simp: m_def py_index_def sbind_simps min_def)
  have "collect ?f [0..<n] = Inl IndexError"
  proof (rule collect_Inl [where f = ?f and j = m and js = "[0..<n]" and e = IndexError])
    show "m \<in> set [0..<n]" by (rule m)
    show "?f m = Inl IndexError" by (rule fm)
    fix i show "?f i = Inl IndexError \<or> (\<exists>v. ?f i = Inr v)"
      by (simp add: py_index_def sbind_simps)
  qed
  with False show ?thesis by simp
qed

text \<open>
  What \<open>Gumbel.confidence_interval\<close> computes for valid parameters, an instance with a
  sample of length \<open>n\<close> and an array \<open>F\<close> that passes the test of \<open>theoretical_estimate\<close>:
  \<open>Qth\<close>, \<open>Y\<close> and \<open>StdError\<close> have one entry for each element of \<open>F\<close>, while the two
  comprehensions that build the bounds run over \<open>range(len(self.data))\<close>.
\<close>

lemma Gumbel_confidence_interval_eq:
  assumes "ps ''loc'' = Some l" and "ps ''scale'' = Some sc" and "0 < sc"
    and "sample self = Some s" and "\<exists>p \<in> set F. p \<noteq> 0"
  shows "Gumbel_confidence_interval L self ps F alpha =
     (let n = length (data s);
          Qth = map (\<lambda>p. l - sc * ln (- ln p)) F;
          SE = map (\<lambda>p. (sc / sqrt (real n))
                         * sqrt (1.1087 + 0.5140 * (- ln (- ln p)) + 0.6079 * (- ln (- ln p))\<^sup>2)) F;
          v = norm_ppf1 L (1 - alpha / 2)
      in if n \<le> length F
         then Inr (map (\<lambda>j. Qth ! j + v * SE ! j) [0..<n], map (\<lambda>j. Qth ! j - v * SE ! j) [0..<n])
         else Inl IndexError)"
proof -
  from assms(5) have F: "F \<noteq> []" by auto
  have Qth: "Gumbel_theoretical_estimate ps F = Inr (map (\<lambda>p. l - sc * ln (- ln p)) F)"
    using assms by (subst theoretical_estimate_range_check(1) [OF assms(1-3)]) auto
  show ?thesis
    unfolding Gumbel_confidence_interval_def
    using assms(2-4) F
    by (simp add: Qth sbind_simps self_data_def collect_index2 Let_def comp_def)
qed

lemma se_radicand_pos: "0 < 1.1087 + 0.5140 * y + 0.6079 * (y::real)\<^sup>2"
proof -
  have "1.1087 + 0.5140 * y + 0.6079 * y\<^sup>2
      = 0.6079 * (y + 0.5140 / (2 * 0.6079))\<^sup>2 + (1.1087 - 0.5140\<^sup>2 / (4 * 0.6079))"
    by (simp add: power2_eq_square algebra_simps)
  moreover have "0 \<le> 0.6079 * (y + 0.5140 / (2 * 0.6079))\<^sup>2" by simp
  moreover have "(0::real) < 1.1087 - 0.5140\<^sup>2 / (4 * 0.6079)" by (simp add: power2_eq_square)
  ultimately show ?thesis by linarith
qed

text \<open>
  Where \<open>F\<close> has one probability for each observation, as \<open>F = weibul(sample)\<close> has, and
  the probabilities lie strictly between 0 and 1, the two ranges agree and the interval
  is the one of the formula: \<open>Qth[j] \<plusminus> z * se(y\<^sub>j)\<close> with \<open>y\<^sub>j = -ln(-ln(F[j]))\<close> and
  \<open>se(y) = (scale / sqrt n) * sqrt(1.1087 + 0.5140 y + 0.6079 y\<^sup>2)\<close>, which brackets
  \<open>Qth[j]\<close>. That the standard normal quantile \<open>z = norm.ppf(1 - alpha/2)\<close> is not
  negative is a fact about the library, and a hypothesis here.
\<close>

lemma Gumbel_confidence_interval_matching:
  assumes "ps ''loc'' = Some l" and "ps ''scale'' = Some sc" and "0 < sc"
    and "0 < alpha" and "alpha < 1"
    and "sample self = Some s" and "n = length (data s)"
    and "F \<noteq> []" and "\<forall>p \<in> set F. 0 < p \<and> p < 1" and "length F = n"
    and "z = norm_ppf1 L (1 - alpha / 2)" and "0 \<le> z"
  shows "\<exists>Qupper Qlower Qth.
           Gumbel_confidence_interval L self ps F alpha = Inr (Qupper, Qlower)
         \<and> Gumbel_theoretical_estimate ps F = Inr Qth
         \<and> length Qupper = n \<and> length Qlower = n
         \<and> (\<forall>j < n.
               Qupper ! j = Qth ! j + z * ((sc / sqrt (real n))
                   * sqrt (1.1087 + 0.5140 * (- ln (- ln (F ! j))) + 0.6079 * (- ln (- ln (F ! j)))\<^sup>2))
             \<and> Qlower ! j = Qth ! j - z * ((sc / sqrt (real n))
                   * sqrt (1.1087 + 0.5140 * (- ln (- ln (F ! j))) + 0.6079 * (- ln (- ln (F ! j)))\<^sup>2))
             \<and> Qth ! j = l - sc * ln (- ln (F ! j))
             \<and> Qlower ! j \<le> Qth ! j \<and> Qth ! j \<le> Qupper ! j)"
proof -
  from assms(8,9) have nz: "\<exists>p \<in> set F. p \<noteq> 0"
    by (cases F) auto
  define se where "se = (\<lambda>p. (sc / sqrt (real n))
      * sqrt (1.1087 + 0.5140 * (- ln (- ln p)) + 0.6079 * (- ln (- ln p))\<^sup>2))"
  define Qth where "Qth = map (\<lambda>p. l - sc * ln (- ln p)) F"
  define Qu where "Qu = map (\<lambda>j. Qth ! j + z * map se F ! j) [0..<n]"
  define Ql where "Ql = map (\<lambda>j. Qth ! j - z * map se F ! j) [0..<n]"
  have ci: "Gumbel_confidence_interval L self ps F alpha = Inr (Qu, Ql)"
    using Gumbel_confidence_interval_eq [OF assms(1-3) assms(6) nz, of L alpha] assms(7,10,11)
    by (simp add: Let_def Qu_def Ql_def Qth_def se_def)
  have te: "Gumbel_theoretical_estimate ps F = Inr Qth"
    using theoretical_estimate_range_check(1) [OF assms(1-3), of F] nz
    by (auto simp: Qth_def)
  have se_nonneg: "0 \<le> se p" for p
    unfolding se_def using assms(3) se_radicand_pos [of "- ln (- ln p)"]
    by (intro mult_nonneg_nonneg divide_nonneg_nonneg real_sqrt_ge_zero) simp_all
  have vals: "Qu ! j = Qth ! j + z * se (F ! j) \<and> Ql ! j = Qth ! j - z * se (F ! j)
      \<and> Qth ! j = l - sc * ln (- ln (F ! j))
      \<and> Ql ! j \<le> Qth ! j \<and> Qth ! j \<le> Qu ! j" if "j < n" for j
  proof -
    from that assms(10) have jF: "j < length F" by simp
    from assms(12) se_nonneg [of "F ! j"] have "0 \<le> z * se (F ! j)" by simp
    with that jF show ?thesis
      by (simp add: Qu_def Ql_def Qth_def)
  qed
  have "length Qu = n" "length Ql = n" by (simp_all add: Qu_def Ql_def)
  with ci te vals show ?thesis
    unfolding se_def by blast
qed

text \<open>
  C4. For every valid probability array \<open>F\<close> the interval is returned, with the bounds
  \<open>Qth[j] \<plusminus> z * se(y\<^sub>j)\<close> at each index \<open>j\<close>. The code, for a sample of two values: at
  \<open>F = [0.5]\<close> index 1 of \<open>Qth\<close> is out of range and the call ends in \<open>IndexError\<close>; at
  \<open>F = [0.25, 0.5, 0.75]\<close> two pairs of bounds are returned for three probabilities.
\<close>

theorem Gumbel_confidence_interval_sample_range:
  "Gumbel_confidence_interval lib0 (new_dist Gumbel (Some [1, 2]) None)
     [''loc'' \<mapsto> 0, ''scale'' \<mapsto> 1] [1 / 2] (1 / 10) = Inl IndexError
   \<and> (\<exists>Qupper Qlower.
         Gumbel_confidence_interval lib0 (new_dist Gumbel (Some [1, 2]) None)
           [''loc'' \<mapsto> 0, ''scale'' \<mapsto> 1] [1 / 4, 1 / 2, 3 / 4] (1 / 10) = Inr (Qupper, Qlower)
       \<and> length Qupper = 2 \<and> length Qlower = 2)"
proof -
  have h1: "[''loc'' \<mapsto> 0, ''scale'' \<mapsto> 1::real] ''loc'' = Some 0" by simp
  have h2: "[''loc'' \<mapsto> 0, ''scale'' \<mapsto> 1::real] ''scale'' = Some 1" by simp
  have h3: "sample (new_dist Gumbel (Some [1, 2]) None) = Some (mk_sample [1, 2])"
    by (simp add: inst_defs)
  have pos: "(0::real) < 1" by simp
  have n: "length (data (mk_sample [1, 2])) = 2" by (simp add: inst_defs)
  have short: "\<exists>p \<in> set [1 / 2 :: real]. p \<noteq> 0"
    by (rule bexI [of _ "1 / 2"]) simp_all
  have long: "\<exists>p \<in> set [1 / 4, 1 / 2, 3 / 4 :: real]. p \<noteq> 0"
    by (rule bexI [of _ "1 / 2"]) simp_all
  have A: "Gumbel_confidence_interval lib0 (new_dist Gumbel (Some [1, 2]) None)
     [''loc'' \<mapsto> 0, ''scale'' \<mapsto> 1] [1 / 2] (1 / 10) = Inl IndexError"
    unfolding Gumbel_confidence_interval_eq [OF h1 h2 pos h3 short] Let_def n
    by (rule if_not_P) simp
  have B: "\<exists>Qupper Qlower.
         Gumbel_confidence_interval lib0 (new_dist Gumbel (Some [1, 2]) None)
           [''loc'' \<mapsto> 0, ''scale'' \<mapsto> 1] [1 / 4, 1 / 2, 3 / 4] (1 / 10) = Inr (Qupper, Qlower)
       \<and> length Qupper = 2 \<and> length Qlower = 2"
    unfolding Gumbel_confidence_interval_eq [OF h1 h2 pos h3 long] Let_def n
    by simp
  from A B show ?thesis by (rule conjI)
qed


subsection \<open>Parameter estimation with \<open>"optimization"\<close>\<close>

lemma collect_index_all: "collect (py_index xs) [0..<length xs] = Inr xs"
proof -
  have "collect (py_index xs) [0..<length xs] = Inr (map ((!) xs) [0..<length xs])"
    by (rule collect_all_Inr) (simp add: py_index_def)
  then show ?thesis by (simp add: map_nth)
qed

lemma collect_index_tl:
  assumes "length xs = k + 1"
  shows "collect (py_index xs) [1..<k + 1] = Inr (tl xs)"
proof -
  have "collect (py_index xs) [1..<k + 1] = Inr (map ((!) xs) [1..<k + 1])"
    using assms by (intro collect_all_Inr) (auto simp: py_index_def simp del: upt_Suc)
  also have "map ((!) xs) [1..<k + 1] = tl xs"
    using assms by (intro nth_equalityI) (simp_all add: nth_tl del: upt_Suc)
  finally show ?thesis .
qed

lemma optimization_eq:
  assumes "sample self = Some s" and "fit (data s) ''mle'' = Inr mle" and "length mle = k"
    and "fmin L f (thr # mle) (data s) 500 500 = Inr xopt" and "length xopt = k + 1"
  shows "optimization L fit k self f thr = Inr (tl xopt)"
  using assms collect_index_all [of mle] collect_index_tl [of xopt k]
  by (simp add: optimization_def self_data_def sbind_simps)

lemma ks_parameters: "parameters (fst (snd (ks L self))) = parameters self"
  by (simp add: ks_def split: attr.splits option.splits sum.splits prod.splits)

lemma chisquare_parameters: "parameters (fst (snd (chisquare L self))) = parameters self"
  by (simp add: chisquare_def split: attr.splits option.splits sum.splits prod.splits)

lemma ks_Inr:
  assumes "fst (ks L self) = Inr r"
  obtains ps s Qth where "parameters self = Attr (Some ps)" and "sample self = Some s"
    and "theoretical_estimate (family self) L ps (cdf_Weibul s) = Inr Qth"
    and "ks_2samp L (data s) Qth = Inr r"
    and "ks L self = (Inr r, self\<lparr>Dstatic := Some (fst r), KS_Pvalue := Some (snd r)\<rparr>,
           [Msg ''-----KS Test--------'', MsgVal ''Statistic = '' (fst r),
            Msg (if (case KStable s of None \<Rightarrow> True | Some k \<Rightarrow> fst r < k)
                 then ''Accept Hypothesis'' else ''reject Hypothesis''),
            MsgVal ''P value = '' (snd r)])"
  using assms
  by (auto simp: ks_def split: attr.splits option.splits sum.splits prod.splits)

lemma chisquare_total:
  assumes "parameters self = Attr (Some ps)" and "sample self = Some s"
    and "theoretical_estimate (family self) L ps (cdf_Weibul s) = Inr Qth"
  shows "\<exists>c. fst (chisquare L self) = Inr c"
  using assms by (simp add: chisquare_def split: sum.splits prod.splits)

lemma chisquare_after_ks:
  assumes "ks L self = (Inr r, self1, o1)"
  shows "\<exists>c. fst (chisquare L self1) = Inr c"
proof -
  from assms have "fst (ks L self) = Inr r" by simp
  then obtain ps s Qth where *: "parameters self = Attr (Some ps)" "sample self = Some s"
      "theoretical_estimate (family self) L ps (cdf_Weibul s) = Inr Qth"
    and k: "ks L self = (Inr r, self\<lparr>Dstatic := Some (fst r), KS_Pvalue := Some (snd r)\<rparr>,
           [Msg ''-----KS Test--------'', MsgVal ''Statistic = '' (fst r),
            Msg (if (case KStable s of None \<Rightarrow> True | Some k \<Rightarrow> fst r < k)
                 then ''Accept Hypothesis'' else ''reject Hypothesis''),
            MsgVal ''P value = '' (snd r)])"
    by (rule ks_Inr)
  from k assms have "self1 = self\<lparr>Dstatic := Some (fst r), KS_Pvalue := Some (snd r)\<rparr>" by simp
  with * show ?thesis
    by (intro chisquare_total [where ps = ps and s = s and Qth = Qth]) simp_all
qed

lemma tests_guarded_eq_plain: "tests_guarded L self Param = tests_plain L self Param"
proof (cases "ks L self")
  case (fields res self1 o1)
  show ?thesis
  proof (cases res)
    case (Inl e)
    with fields show ?thesis by (simp add: tests_guarded_def tests_plain_def)
  next
    case (Inr r)
    with fields chisquare_after_ks [of L self r self1 o1]
    obtain c where "fst (chisquare L self1) = Inr c" by auto
    then obtain self2 o2 where "chisquare L self1 = (Inr c, self2, o2)"
      by (cases "chisquare L self1") auto
    with fields Inr show ?thesis by (simp add: tests_guarded_def tests_plain_def)
  qed
qed

lemma tests_plain_result:
  "parameters (fst (snd (tests_plain L self Param))) = parameters self"
  "fst (tests_plain L self Param) = Inr P \<Longrightarrow> P = Param"
  "fst (ks L self) = Inr r \<Longrightarrow> fst (tests_plain L self Param) = Inr Param"
proof -
  obtain res self1 o1 where k: "ks L self = (res, self1, o1)" by (cases "ks L self") auto
  obtain res2 self2 o2 where c: "chisquare L self1 = (res2, self2, o2)"
    by (cases "chisquare L self1") auto
  from k have p1: "parameters self1 = parameters self"
    using ks_parameters [of L self] by simp
  from c have p2: "parameters self2 = parameters self1"
    using chisquare_parameters [of L self1] by simp
  show "parameters (fst (snd (tests_plain L self Param))) = parameters self"
    using k c p1 p2 by (simp add: tests_plain_def split: sum.splits)
  show "fst (tests_plain L self Param) = Inr P \<Longrightarrow> P = Param"
    using k c by (simp add: tests_plain_def split: sum.splits)
  show "fst (tests_plain L self Param) = Inr Param" if "fst (ks L self) = Inr r"
  proof -
    from that k have res: "res = Inr r" by simp
    with k chisquare_after_ks [of L self r self1 o1] c obtain cc where "res2 = Inr cc" by auto
    with k c res show ?thesis by (simp add: tests_plain_def)
  qed
qed


lemma py_index_in: "j < length xs \<Longrightarrow> py_index xs j = Inr (xs ! j)"
  by (simp add: py_index_def)

lemma py_index_two:
  assumes "length xs = 2"
  shows "py_index xs 0 = Inr (xs ! 0)" and "py_index xs (Suc 0) = Inr (xs ! 1)"
    and "py_index xs 1 = Inr (xs ! 1)"
  using assms by (simp_all add: py_index_def)

lemma py_index_three:
  assumes "length xs = 3"
  shows "py_index xs 0 = Inr (xs ! 0)" and "py_index xs (Suc 0) = Inr (xs ! 1)"
    and "py_index xs 1 = Inr (xs ! 1)" and "py_index xs 2 = Inr (xs ! 2)"
  using assms by (simp_all add: py_index_def)

lemmas est_defs =
  estimate_parameter_def Gumbel_estimate_parameter_def GEV_estimate_parameter_def
  Exponential_estimate_parameter_def Normal_estimate_parameter_def
  Gumbel_Param_def GEV_Param_def Exponential_Param_def Normal_Param_def methods_def

lemma estimate_parameter_missing:
  assumes "lower method = ''optimization''" and "ObjFunc = None \<or> threshold = None"
  shows "estimate_parameter L self method ObjFunc threshold test
           = (Inl (TypeError (missing_msg (family self))), self, [])"
  using assms
  by (cases "family self"; cases ObjFunc; cases threshold;
      simp add: est_defs missing_msg_def sbind_simps Let_def)

lemma estimate_parameter_fitted:
  assumes "lower method = ''optimization''"
    and "sample self = Some s"
    and "class_fit L (family self) (data s) ''mle'' = Inr mle"
    and "length mle = n_params (family self)"
    and "fmin L f (thr # mle) (data s) 500 500 = Inr xopt"
    and "length xopt = n_params (family self) + 1"
    and "P = class_dict (family self) (tl xopt)"
  shows "estimate_parameter L self method (Some f) (Some thr) test
           = (if test then tests_plain L (self\<lparr>parameters := Attr (Some P)\<rparr>) P
              else (Inr P, self\<lparr>parameters := Attr (Some P)\<rparr>, []))"
proof (cases "family self")
  case Gumbel
  with assms have "optimization L (gumbel_r_fit L) 2 self f thr = Inr (tl xopt)"
    by (intro optimization_eq [where s = s and mle = mle]) (simp_all add: class_fit_def n_params_def)
  moreover from assms Gumbel have "length (tl xopt) = 2" by (simp add: n_params_def)
  ultimately show ?thesis
    using assms(1,7) Gumbel
    by (simp add: est_defs sbind_simps py_index_two [of "tl xopt"] class_dict_def Let_def
        tests_guarded_eq_plain del: length_tl)
next
  case GEV
  with assms have "optimization L (genextreme_fit L) 3 self f thr = Inr (tl xopt)"
    by (intro optimization_eq [where s = s and mle = mle]) (simp_all add: class_fit_def n_params_def)
  moreover from assms GEV have "length (tl xopt) = 3" by (simp add: n_params_def)
  ultimately show ?thesis
    using assms(1,7) GEV
    by (simp add: est_defs sbind_simps py_index_three [of "tl xopt"] class_dict_def Let_def
        tests_guarded_eq_plain del: length_tl)
next
  case Exponential
  with assms have "optimization L (expon_fit L) 2 self f thr = Inr (tl xopt)"
    by (intro optimization_eq [where s = s and mle = mle]) (simp_all add: class_fit_def n_params_def)
  moreover from assms Exponential have "length (tl xopt) = 2" by (simp add: n_params_def)
  ultimately show ?thesis
    using assms(1,7) Exponential
    by (simp add: est_defs sbind_simps py_index_two [of "tl xopt"] class_dict_def Let_def
        tests_guarded_eq_plain del: length_tl)
next
  case Normal
  with assms have "optimization L (norm_fit L) 2 self f thr = Inr (tl xopt)"
    by (intro optimization_eq [where s = s and mle = mle]) (simp_all add: class_fit_def n_params_def)
  moreover from assms Normal have "length (tl xopt) = 2" by (simp add: n_params_def)
  ultimately show ?thesis
    using assms(1,7) Normal
    by (simp add: est_defs sbind_simps py_index_two [of "tl xopt"] class_dict_def Let_def
        tests_guarded_eq_plain del: length_tl)
qed

text \<open>
  C3. For every family, \<open>estimate_parameter\<close> with the method \<open>"optimization"\<close> (in
  any letter case) raises \<open>TypeError\<close> when the objective or the threshold is \<open>None\<close>,
  and the instance is as before. Otherwise, once the fit with \<open>"mle"\<close> has returned
  the tuple \<open>mle\<close> and \<open>fmin\<close>, called with the objective, the start vector
  \<open>[threshold, *mle]\<close>, the sample and the limits 500 and 500, has returned \<open>xopt\<close>:
  the parameter set stored in the instance is built from \<open>xopt\<close> without its first
  component, it is the result whenever there is one, and there is one when \<open>test\<close> is
  false (with \<open>test\<close> true the two tests run next and may raise).
\<close>

theorem estimate_parameter_optimization:
  assumes "lower method = ''optimization''"
  shows "(ObjFunc = None \<or> threshold = None \<longrightarrow>
            estimate_parameter L self method ObjFunc threshold test
              = (Inl (TypeError (missing_msg (family self))), self, []))
       \<and> (\<forall>f thr s mle xopt.
            ObjFunc = Some f \<and> threshold = Some thr \<and> sample self = Some s
            \<and> class_fit L (family self) (data s) ''mle'' = Inr mle
            \<and> length mle = n_params (family self)
            \<and> fmin L f (thr # mle) (data s) 500 500 = Inr xopt
            \<and> length xopt = n_params (family self) + 1
            \<longrightarrow> parameters (fst (snd (estimate_parameter L self method ObjFunc threshold test)))
                  = Attr (Some (class_dict (family self) (tl xopt)))
              \<and> (\<not> test \<longrightarrow> estimate_parameter L self method ObjFunc threshold test
                    = (Inr (class_dict (family self) (tl xopt)),
                       self\<lparr>parameters := Attr (Some (class_dict (family self) (tl xopt)))\<rparr>, []))
              \<and> (\<forall>P. fst (estimate_parameter L self method ObjFunc threshold test) = Inr P
                    \<longrightarrow> P = class_dict (family self) (tl xopt)))"
proof (intro conjI impI allI)
  assume "ObjFunc = None \<or> threshold = None"
  with assms show "estimate_parameter L self method ObjFunc threshold test
      = (Inl (TypeError (missing_msg (family self))), self, [])"
    by (rule estimate_parameter_missing)
next
  fix f thr s mle xopt
  assume h: "ObjFunc = Some f \<and> threshold = Some thr \<and> sample self = Some s
            \<and> class_fit L (family self) (data s) ''mle'' = Inr mle
            \<and> length mle = n_params (family self)
            \<and> fmin L f (thr # mle) (data s) 500 500 = Inr xopt
            \<and> length xopt = n_params (family self) + 1"
  define P where "P = class_dict (family self) (tl xopt)"
  from h assms P_def
  have eq: "estimate_parameter L self method ObjFunc threshold test
           = (if test then tests_plain L (self\<lparr>parameters := Attr (Some P)\<rparr>) P
              else (Inr P, self\<lparr>parameters := Attr (Some P)\<rparr>, []))"
    using estimate_parameter_fitted [of "method" self s L mle f thr xopt P test] by simp
  show "parameters (fst (snd (estimate_parameter L self method ObjFunc threshold test)))
      = Attr (Some (class_dict (family self) (tl xopt)))"
    unfolding eq P_def [symmetric] by (simp add: tests_plain_result(1))
  {
    assume "\<not> test"
    then show "estimate_parameter L self method ObjFunc threshold test
        = (Inr (class_dict (family self) (tl xopt)),
           self\<lparr>parameters := Attr (Some (class_dict (family self) (tl xopt)))\<rparr>, [])"
      unfolding eq P_def [symmetric] by simp
  }
  fix P'
  assume "fst (estimate_parameter L self method ObjFunc threshold test) = Inr P'"
  then show "P' = class_dict (family self) (tl xopt)"
    unfolding eq P_def [symmetric]
    using tests_plain_result(2) [of L "self\<lparr>parameters := Attr (Some P)\<rparr>" P P']
    by (auto split: if_splits)
qed


lemma lower_Optimization: "lower ''Optimization'' = ''optimization''"
  by (simp add: lower_def lower_char_def)

theorem estimate_parameter_optimization_witness:
  "lower ''Optimization'' = ''optimization''
   \<and> estimate_parameter lib0 (new_dist GEV (Some [1, 2, 3]) None) ''Optimization''
         None (Some 17) True
       = (Inl (TypeError ''ObjFunc and threshold should be numeric value''),
          new_dist GEV (Some [1, 2, 3]) None, [])
   \<and> estimate_parameter lib0 (new_dist Gumbel (Some [1, 2, 3]) None) ''Optimization''
         (Some (\<lambda>p x. Inr 0)) (Some 17) False
       = (Inr [''loc'' \<mapsto> 0, ''scale'' \<mapsto> 1],
          (new_dist Gumbel (Some [1, 2, 3]) None)
            \<lparr>parameters := Attr (Some [''loc'' \<mapsto> 0, ''scale'' \<mapsto> 1])\<rparr>, [])"
proof -
  let ?g = "new_dist Gumbel (Some [1, 2, 3]) None"
  let ?v = "new_dist GEV (Some [1, 2, 3]) None"
  let ?f = "\<lambda>(p::real list) (x::real list). (Inr 0 :: error + real)"
  have low: "lower ''Optimization'' = ''optimization''" by (rule lower_Optimization)
  have fam: "family ?g = Gumbel" "family ?v = GEV" by (simp_all add: inst_defs)
  have "estimate_parameter lib0 ?v ''Optimization'' None (Some 17) True
       = (Inl (TypeError (missing_msg (family ?v))), ?v, [])"
    using estimate_parameter_optimization [OF low, of None "Some 17" lib0 ?v True] by blast
  then have A: "estimate_parameter lib0 ?v ''Optimization'' None (Some 17) True
       = (Inl (TypeError ''ObjFunc and threshold should be numeric value''), ?v, [])"
    by (simp add: fam missing_msg_def)
  have hyp: "Some ?f = Some ?f \<and> Some (17::real) = Some 17
      \<and> sample ?g = Some (mk_sample [1, 2, 3])
      \<and> class_fit lib0 (family ?g) (data (mk_sample [1, 2, 3])) ''mle'' = Inr [0, 1]
      \<and> length [0, 1 :: real] = n_params (family ?g)
      \<and> fmin lib0 ?f (17 # [0, 1]) (data (mk_sample [1, 2, 3])) 500 500 = Inr [17, 0, 1]
      \<and> length [17, 0, 1 :: real] = n_params (family ?g) + 1"
    by (simp add: inst_defs class_fit_def n_params_def lib0_def)
  have "\<not> False \<longrightarrow> estimate_parameter lib0 ?g ''Optimization'' (Some ?f) (Some 17) False
       = (Inr (class_dict (family ?g) (tl [17, 0, 1])),
          ?g\<lparr>parameters := Attr (Some (class_dict (family ?g) (tl [17, 0, 1])))\<rparr>, [])"
    using estimate_parameter_optimization [OF low, of "Some ?f" "Some 17" lib0 ?g False] hyp
    by blast
  then have B: "estimate_parameter lib0 ?g ''Optimization'' (Some ?f) (Some 17) False
       = (Inr [''loc'' \<mapsto> 0, ''scale'' \<mapsto> 1],
          ?g\<lparr>parameters := Attr (Some [''loc'' \<mapsto> 0, ''scale'' \<mapsto> 1])\<rparr>, [])"
    by (simp add: fam class_dict_def)
  from low A B show ?thesis by blast
qed

subsection \<open>A failing Chi-square test\<close>

text \<open>
  After a successful \<open>ks()\<close> the call of \<open>chisquare()\<close> cannot raise: the parameters and
  the sample are there, and the quantiles it computes first are the ones \<open>ks()\<close> has
  computed. So the \<open>try ... except ValueError\<close> that three of the four
  \<open>estimate_parameter\<close> methods put around \<open>self.chisquare()\<close> never catches anything
  (\<open>tests_guarded_eq_plain\<close> above), and the four methods treat a Chi-square failure
  alike.
\<close>

lemma estimate_parameter_test:
  "estimate_parameter L self method ObjFunc threshold True =
     (case estimate_parameter L self method ObjFunc threshold False of
        (Inl e, self1, o1) \<Rightarrow> (Inl e, self1, o1)
      | (Inr P, self1, o1) \<Rightarrow> tests_plain L self1 P)"
  by (cases "family self")
     (simp_all add: estimate_parameter_def Gumbel_estimate_parameter_def
        GEV_estimate_parameter_def Exponential_estimate_parameter_def
        Normal_estimate_parameter_def Let_def tests_guarded_eq_plain split: sum.splits)

lemma estimate_parameter_untested:
  assumes "fst (estimate_parameter L self method ObjFunc threshold False) = Inr P"
  shows "estimate_parameter L self method ObjFunc threshold False
           = (Inr P, self\<lparr>parameters := Attr (Some P)\<rparr>, [])"
  using assms
  by (cases "family self")
     (auto simp: estimate_parameter_def Gumbel_estimate_parameter_def
        GEV_estimate_parameter_def Exponential_estimate_parameter_def
        Normal_estimate_parameter_def Let_def split: sum.splits if_splits)

lemma chisquare_caught:
  assumes "parameters self = Attr (Some ps)" and "sample self = Some s"
    and "theoretical_estimate (family self) L ps (cdf_Weibul s) = Inr Qth"
    and "sbind (standardize L Qth) (\<lambda>a.
           sbind (standardize L (data s)) (\<lambda>b. scipy_chisquare L a b)) = Inl e"
  shows "chisquare L self = (Inr None, self, [MsgErr e])"
  using assms by (simp add: chisquare_def)

lemma estimate_parameter_after_ks:
  assumes "fst (estimate_parameter L self method ObjFunc threshold False) = Inr P"
    and "fst (ks L (self\<lparr>parameters := Attr (Some P)\<rparr>)) = Inr r"
  shows "fst (estimate_parameter L self method ObjFunc threshold True) = Inr P"
proof -
  from assms(1) have "estimate_parameter L self method ObjFunc threshold False
           = (Inr P, self\<lparr>parameters := Attr (Some P)\<rparr>, [])"
    by (rule estimate_parameter_untested)
  then have "estimate_parameter L self method ObjFunc threshold True
           = tests_plain L (self\<lparr>parameters := Attr (Some P)\<rparr>) P"
    by (simp add: estimate_parameter_test)
  with assms(2) tests_plain_result(3) [of L "self\<lparr>parameters := Attr (Some P)\<rparr>" r P]
  show ?thesis by simp
qed

lemma new_dist_simps:
  "family (new_dist fam d ps) = fam"
  "sample (new_dist fam (Some xs) ps) = Some (mk_sample xs)"
  "fam \<noteq> Normal \<Longrightarrow> parameters (new_dist fam d ps) = Attr ps"
  "parameters (new_dist Normal d ps) = Unset"
  by (cases fam; simp add: inst_defs)+

lemma mk_sample_123:
  "data (mk_sample [1, 2, 3]) = [1, 2, 3]"
  "cdf_Weibul (mk_sample [1, 2, 3]) = [1 / 4, 1 / 2, 3 / 4]"
  by (simp_all add: mk_sample_def weibul_eq upt_rec)

lemma failing_chisquare_simps:
  "standardize failing_chisquare xs = Inr xs"
  "scipy_chisquare failing_chisquare a b = Inl (ValueError ''observed and expected sums differ'')"
  "ks_2samp failing_chisquare a b = Inr (0, 1)"
  "gumbel_r_fit failing_chisquare d m = Inr [0, 1]"
  "expon_fit failing_chisquare d m = Inr [0, 1]"
  "norm_fit failing_chisquare d m = Inr [0, 1]"
  "genextreme_ppf failing_chisquare F c l sc = map (\<lambda>x. 0) F"
  "expon_ppf failing_chisquare F l sc = map (\<lambda>x. 0) F"
  "norm_ppf failing_chisquare F l sc = map (\<lambda>x. 0) F"
  by (simp_all add: failing_chisquare_def lib0_def)

lemma mle_untested:
  "estimate_parameter failing_chisquare (new_dist Gumbel (Some [1, 2, 3]) None) ''mle'' None None False
     = (Inr [''loc'' \<mapsto> 0, ''scale'' \<mapsto> 1],
        (new_dist Gumbel (Some [1, 2, 3]) None)
          \<lparr>parameters := Attr (Some [''loc'' \<mapsto> 0, ''scale'' \<mapsto> 1])\<rparr>, [])"
  "estimate_parameter failing_chisquare (new_dist Exponential (Some [1, 2, 3]) None) ''mle'' None None False
     = (Inr [''loc'' \<mapsto> 0, ''scale'' \<mapsto> 1],
        (new_dist Exponential (Some [1, 2, 3]) None)
          \<lparr>parameters := Attr (Some [''loc'' \<mapsto> 0, ''scale'' \<mapsto> 1])\<rparr>, [])"
  "estimate_parameter failing_chisquare (new_dist Normal (Some [1, 2, 3]) None) ''mle'' None None False
     = (Inr [''loc'' \<mapsto> 0, ''scale'' \<mapsto> 1],
        (new_dist Normal (Some [1, 2, 3]) None)
          \<lparr>parameters := Attr (Some [''loc'' \<mapsto> 0, ''scale'' \<mapsto> 1])\<rparr>, [])"
  by (simp_all add: est_defs new_dist_simps lower_def lower_char_def self_data_def sbind_simps
      failing_chisquare_simps py_index_def Let_def)

lemma ks_fitted_example:
  "fst (ks failing_chisquare ((new_dist Gumbel (Some [1, 2, 3]) None)
          \<lparr>parameters := Attr (Some [''loc'' \<mapsto> 0, ''scale'' \<mapsto> 1])\<rparr>)) = Inr (0, 1)"
  "fst (ks failing_chisquare ((new_dist Exponential (Some [1, 2, 3]) None)
          \<lparr>parameters := Attr (Some [''loc'' \<mapsto> 0, ''scale'' \<mapsto> 1])\<rparr>)) = Inr (0, 1)"
  "fst (ks failing_chisquare ((new_dist Normal (Some [1, 2, 3]) None)
          \<lparr>parameters := Attr (Some [''loc'' \<mapsto> 0, ''scale'' \<mapsto> 1])\<rparr>)) = Inr (0, 1)"
  by (simp_all add: ks_def new_dist_simps mk_sample_123 theoretical_estimate_def
      Gumbel_theoretical_estimate_def Exponential_theoretical_estimate_def
      Normal_theoretical_estimate_def py_any_def lib_call2_def failing_chisquare_simps)

text \<open>
  C7, as the specification states it: the catch of a failing Chi-square computation
  exists for GEV and Exponential only. With a library whose \<open>chisquare\<close> raises, a
  Gumbel instance gets \<open>None\<close> from \<open>chisquare()\<close> with the exception printed, and
  \<open>estimate_parameter\<close> with the tests on returns the parameters for Gumbel and for
  Normal.
\<close>

theorem chisquare_leniency_counterexample:
  "chisquare failing_chisquare
       (new_dist Gumbel (Some [1, 2, 3]) (Some [''loc'' \<mapsto> 0, ''scale'' \<mapsto> 1]))
     = (Inr None, new_dist Gumbel (Some [1, 2, 3]) (Some [''loc'' \<mapsto> 0, ''scale'' \<mapsto> 1]),
        [MsgErr (ValueError ''observed and expected sums differ'')])
   \<and> fst (estimate_parameter failing_chisquare (new_dist Gumbel (Some [1, 2, 3]) None)
            ''mle'' None None True) = Inr [''loc'' \<mapsto> 0, ''scale'' \<mapsto> 1]
   \<and> fst (estimate_parameter failing_chisquare (new_dist Normal (Some [1, 2, 3]) None)
            ''mle'' None None True) = Inr [''loc'' \<mapsto> 0, ''scale'' \<mapsto> 1]"
proof (intro conjI)
  let ?g = "new_dist Gumbel (Some [1, 2, 3]) (Some [''loc'' \<mapsto> 0, ''scale'' \<mapsto> 1])"
  have "theoretical_estimate (family ?g) failing_chisquare [''loc'' \<mapsto> 0, ''scale'' \<mapsto> 1]
          (cdf_Weibul (mk_sample [1, 2, 3]))
        = Inr (map (\<lambda>p. 0 - 1 * ln (- ln p)) [1 / 4, 1 / 2, 3 / 4])"
    by (simp add: new_dist_simps mk_sample_123 theoretical_estimate_def
        Gumbel_theoretical_estimate_def py_any_def)
  then show "chisquare failing_chisquare ?g
     = (Inr None, ?g, [MsgErr (ValueError ''observed and expected sums differ'')])"
    by (intro chisquare_caught [where s = "mk_sample [1, 2, 3]"])
       (simp_all add: new_dist_simps failing_chisquare_simps sbind_simps)
  show "fst (estimate_parameter failing_chisquare (new_dist Gumbel (Some [1, 2, 3]) None)
            ''mle'' None None True) = Inr [''loc'' \<mapsto> 0, ''scale'' \<mapsto> 1]"
    by (rule estimate_parameter_after_ks [where r = "(0, 1)"])
       (simp_all add: mle_untested ks_fitted_example)
  show "fst (estimate_parameter failing_chisquare (new_dist Normal (Some [1, 2, 3]) None)
            ''mle'' None None True) = Inr [''loc'' \<mapsto> 0, ''scale'' \<mapsto> 1]"
    by (rule estimate_parameter_after_ks [where r = "(0, 1)"])
       (simp_all add: mle_untested ks_fitted_example)
qed

text \<open>
  C7, amended. For every family and every instance with parameters whose quantiles
  \<open>theoretical_estimate\<close> can compute: if the computation inside the \<open>try\<close> of
  \<open>chisquare()\<close> (the two standardizations and scipy's test) raises, \<open>chisquare()\<close>
  prints the exception, returns \<open>None\<close> and leaves the instance unchanged. And for every
  family: if \<open>estimate_parameter\<close> returns \<open>P\<close> with the tests off, and \<open>ks()\<close>
  succeeds on the instance with \<open>P\<close>, then \<open>estimate_parameter\<close> with the tests on
  returns \<open>P\<close>, whatever the Chi-square computation does.
\<close>

theorem chisquare_failure_not_fatal:
  "(parameters self = Attr (Some ps) \<and> sample self = Some s
    \<and> theoretical_estimate (family self) L ps (cdf_Weibul s) = Inr Qth
    \<and> sbind (standardize L Qth) (\<lambda>a.
         sbind (standardize L (data s)) (\<lambda>b. scipy_chisquare L a b)) = Inl e
    \<longrightarrow> chisquare L self = (Inr None, self, [MsgErr e]))
   \<and> (fst (estimate_parameter L self method ObjFunc threshold False) = Inr P
      \<and> fst (ks L (self\<lparr>parameters := Attr (Some P)\<rparr>)) = Inr r
    \<longrightarrow> fst (estimate_parameter L self method ObjFunc threshold True) = Inr P)"
  using chisquare_caught [of self ps s L Qth e]
    estimate_parameter_after_ks [of L self "method" ObjFunc threshold P r]
  by blast

theorem chisquare_failure_not_fatal_witness:
  "parameters (new_dist GEV (Some [1, 2, 3])
       (Some [''loc'' \<mapsto> 0, ''scale'' \<mapsto> 1, ''shape'' \<mapsto> 1 / 10]))
     = Attr (Some [''loc'' \<mapsto> 0, ''scale'' \<mapsto> 1, ''shape'' \<mapsto> 1 / 10])
   \<and> chisquare failing_chisquare
       (new_dist GEV (Some [1, 2, 3]) (Some [''loc'' \<mapsto> 0, ''scale'' \<mapsto> 1, ''shape'' \<mapsto> 1 / 10]))
     = (Inr None,
        new_dist GEV (Some [1, 2, 3]) (Some [''loc'' \<mapsto> 0, ''scale'' \<mapsto> 1, ''shape'' \<mapsto> 1 / 10]),
        [MsgErr (ValueError ''observed and expected sums differ'')])
   \<and> fst (estimate_parameter failing_chisquare (new_dist Exponential (Some [1, 2, 3]) None)
            ''mle'' None None False) = Inr [''loc'' \<mapsto> 0, ''scale'' \<mapsto> 1]
   \<and> fst (estimate_parameter failing_chisquare (new_dist Exponential (Some [1, 2, 3]) None)
            ''mle'' None None True) = Inr [''loc'' \<mapsto> 0, ''scale'' \<mapsto> 1]"
proof -
  let ?ps = "[''loc'' \<mapsto> 0, ''scale'' \<mapsto> 1, ''shape'' \<mapsto> 1 / 10 :: real]"
  let ?v = "new_dist GEV (Some [1, 2, 3]) (Some ?ps)"
  let ?x = "new_dist Exponential (Some [1, 2, 3]) None"
  let ?P = "[''loc'' \<mapsto> 0, ''scale'' \<mapsto> 1 :: real]"
  have h1: "parameters ?v = Attr (Some ?ps)" by (simp add: new_dist_simps)
  have h2: "sample ?v = Some (mk_sample [1, 2, 3])" by (simp add: new_dist_simps)
  have h3: "theoretical_estimate (family ?v) failing_chisquare ?ps (cdf_Weibul (mk_sample [1, 2, 3]))
      = Inr [0, 0, 0]"
    by (simp add: new_dist_simps mk_sample_123 theoretical_estimate_def
        GEV_theoretical_estimate_def py_any_def lib_call3_def failing_chisquare_simps)
  have h4: "sbind (standardize failing_chisquare [0, 0, 0]) (\<lambda>a.
         sbind (standardize failing_chisquare (data (mk_sample [1, 2, 3])))
           (\<lambda>b. scipy_chisquare failing_chisquare a b))
      = Inl (ValueError ''observed and expected sums differ'')"
    by (simp add: failing_chisquare_simps sbind_simps)
  have h5: "fst (estimate_parameter failing_chisquare ?x ''mle'' None None False) = Inr ?P"
    by (simp add: mle_untested)
  have h6: "fst (ks failing_chisquare (?x\<lparr>parameters := Attr (Some ?P)\<rparr>)) = Inr (0, 1)"
    by (rule ks_fitted_example)
  from chisquare_failure_not_fatal [of ?v ?ps "mk_sample [1, 2, 3]" failing_chisquare
      "[0, 0, 0]" "ValueError ''observed and expected sums differ''"] h1 h2 h3 h4
  have A: "chisquare failing_chisquare ?v
     = (Inr None, ?v, [MsgErr (ValueError ''observed and expected sums differ'')])"
    by blast
  from chisquare_failure_not_fatal [of ?x _ _ failing_chisquare _ _ "''mle''" None None ?P "(0, 1)"]
    h5 h6
  have B: "fst (estimate_parameter failing_chisquare ?x ''mle'' None None True) = Inr ?P"
    by blast
  from h1 A h5 B show ?thesis by blast
qed

end
